theory Spec2Isabelle
  imports Main "HOL-Library.Word"
begin

unbundle bit_operations_syntax

section \<open>Physical memory, page-table entries and the page pool (memory.c)\<close>

text \<open>
  Physical memory is a store of 64-bit cells, one per 8-byte aligned physical address.
  Every address the code forms is of this kind as long as table roots and free-list links
  are page aligned: a page-table entry sits at \<open>table + 8 * index\<close>, and the link of a
  free page (\<open>union linked_page.next\<close>) is the first cell of the page. A page-table
  entry and a free-list link stored at the same address are the same cell, so the
  aliasing between the two views of a frame is kept.

  A function that can fail returns a sum: the left injection is a fatal
  \<open>panic(msg)\<close>, which halts the machine, or a negative error code \<open>-E...\<close>
  returned to the caller; the right injection is the value returned otherwise.

  Modelled from the spec: error.h is not among the sources, so the error codes are kept
  symbolic, one constructor for each name the code returns.
\<close>

datatype errno = EINVAL | EBADFD | EMFILE | EBUSY | EIO | ENOTSUP | ENOENT | EBADFMT

datatype failure = Panic string | Errno errno

record mstate =
  mem :: "64 word \<Rightarrow> 64 word"
  free_list :: "64 word"
  satp :: "64 word"
  main_mtag :: "64 word"

text \<open>
  Modelled from the spec: memory.h and config.h are not among the sources. The flag
  bits V, R, W, X, U, G, A, D are the Sv39 bits 0 to 7 of the entry, in that order, and
  a page is 4 KiB (\<open>PAGE_ORDER = 12\<close>).
\<close>

definition PTE_V :: "8 word" where "PTE_V = 1"
definition PTE_R :: "8 word" where "PTE_R = 2"
definition PTE_W :: "8 word" where "PTE_W = 4"
definition PTE_X :: "8 word" where "PTE_X = 8"
definition PTE_U :: "8 word" where "PTE_U = 16"
definition PTE_G :: "8 word" where "PTE_G = 32"
definition PTE_A :: "8 word" where "PTE_A = 64"
definition PTE_D :: "8 word" where "PTE_D = 128"

definition PAGE_ORDER :: nat where "PAGE_ORDER = 12"
definition PAGE_SIZE :: "64 word" where "PAGE_SIZE = 4096"
definition PTE_PER_LEVEL :: nat where "PTE_PER_LEVEL = 512"

text \<open>\<open>struct pte\<close>: \<open>flags:8, rsw:2, ppn:44, reserved:7, pbmt:2, n:1\<close>, lowest bits first.\<close>

definition pte_flags :: "64 word \<Rightarrow> 8 word" where
  "pte_flags e = ucast e"

definition pte_ppn :: "64 word \<Rightarrow> 64 word" where
  "pte_ppn e = drop_bit 10 e AND mask 44"

definition set_pte_flags :: "64 word \<Rightarrow> 8 word \<Rightarrow> 64 word" where
  "set_pte_flags e f = (e AND NOT (mask 8)) OR ucast f"

definition set_pte_ppn :: "64 word \<Rightarrow> 64 word \<Rightarrow> 64 word" where
  "set_pte_ppn e p = (e AND NOT (push_bit 10 (mask 44))) OR push_bit 10 (p AND mask 44)"

definition VPN2 :: "64 word \<Rightarrow> 64 word" where
  "VPN2 vma = drop_bit (9 + 9 + 12) vma AND 0x1FF"

definition VPN1 :: "64 word \<Rightarrow> 64 word" where
  "VPN1 vma = drop_bit (9 + 12) vma AND 0x1FF"

definition VPN0 :: "64 word \<Rightarrow> 64 word" where
  "VPN0 vma = drop_bit 12 vma AND 0x1FF"

definition pagenum_to_pageptr :: "64 word \<Rightarrow> 64 word" where
  "pagenum_to_pageptr n = push_bit PAGE_ORDER n"

definition pageptr_to_pagenum :: "64 word \<Rightarrow> 64 word" where
  "pageptr_to_pagenum p = drop_bit PAGE_ORDER p"

definition mtag_to_root :: "64 word \<Rightarrow> 64 word" where
  "mtag_to_root mtag = drop_bit 8 (push_bit 20 mtag)"

definition active_space_mtag :: "mstate \<Rightarrow> 64 word" where
  "active_space_mtag s = satp s"

definition active_space_root :: "mstate \<Rightarrow> 64 word" where
  "active_space_root s = mtag_to_root (active_space_mtag s)"

text \<open>The address of entry \<open>i\<close> of the table at \<open>tab\<close> (\<open>&tab[i]\<close>, 8 bytes an entry).\<close>

definition pte_addr :: "64 word \<Rightarrow> 64 word \<Rightarrow> 64 word" where
  "pte_addr tab i = tab + 8 * i"

text \<open>
  \<open>memory_alloc_page\<close>: panics on an empty list, otherwise unlinks and returns the head.
  The page is handed out as it is: nothing is written to it.
\<close>

definition memory_alloc_page :: "mstate \<Rightarrow> failure + (64 word \<times> mstate)" where
  "memory_alloc_page s =
     (if free_list s = 0 then Inl (Panic ''No free pages available'')
      else Inr (free_list s, s\<lparr>free_list := mem s (free_list s)\<rparr>))"

text \<open>\<open>memory_free_page\<close>: stores the old head in the first cell of the page and makes it the head.\<close>

definition memory_free_page :: "64 word \<Rightarrow> mstate \<Rightarrow> mstate" where
  "memory_free_page pp s = s\<lparr>mem := (mem s)(pp := free_list s), free_list := pp\<rparr>"

text \<open>
  \<open>walk_pt(root, vma, create)\<close>. The result pointer 0 is the source's \<open>return 0\<close>.
  At each of the two inner levels only the V bit of the entry is tested; a fresh table is
  linked with \<open>ppn\<close> first and \<open>flags = PTE_V\<close> second, the other fields of the entry kept.
\<close>

definition walk_pt :: "mstate \<Rightarrow> 64 word \<Rightarrow> 64 word \<Rightarrow> bool \<Rightarrow> failure + (64 word \<times> mstate)" where
  "walk_pt s root vma create =
     (let pte2 = pte_addr root (VPN2 vma) in
      case (if pte_flags (mem s pte2) AND PTE_V \<noteq> 0
            then Inr (Some (pagenum_to_pageptr (pte_ppn (mem s pte2))), s)
            else if \<not> create then Inr (None, s)
            else (case memory_alloc_page s of
                    Inl e \<Rightarrow> Inl e
                  | Inr (pt1, s1) \<Rightarrow>
                      let s2 = s1\<lparr>mem := (mem s1)(pte2 := set_pte_ppn (mem s1 pte2) (pageptr_to_pagenum pt1))\<rparr>;
                          s3 = s2\<lparr>mem := (mem s2)(pte2 := set_pte_flags (mem s2 pte2) PTE_V)\<rparr>
                      in Inr (Some pt1, s3))) of
        Inl e \<Rightarrow> Inl e
      | Inr (None, sa) \<Rightarrow> Inr (0, sa)
      | Inr (Some pt1, sa) \<Rightarrow>
          (let pte1 = pte_addr pt1 (VPN1 vma) in
           if pte_flags (mem sa pte1) AND PTE_V \<noteq> 0
           then Inr (pagenum_to_pageptr (pte_ppn (mem sa pte1)), sa)
           else if \<not> create then Inr (0, sa)
           else (case memory_alloc_page sa of
                   Inl e \<Rightarrow> Inl e
                 | Inr (pt0, s1) \<Rightarrow>
                     let s2 = s1\<lparr>mem := (mem s1)(pte1 := set_pte_ppn (mem s1 pte1) (pageptr_to_pagenum pt0))\<rparr>;
                         s3 = s2\<lparr>mem := (mem s2)(pte1 := set_pte_flags (mem s2 pte1) PTE_V)\<rparr>
                     in Inr (pt0, s3))))"

text \<open>
  A virtual address is mapped down to level 0 when the level-2 entry for it is valid and
  the level-1 entry it leads to is valid; \<open>level0_table\<close> is the table that entry names.
\<close>

definition mapped_to_level0 :: "mstate \<Rightarrow> 64 word \<Rightarrow> 64 word \<Rightarrow> bool" where
  "mapped_to_level0 s root va =
     (pte_flags (mem s (pte_addr root (VPN2 va))) AND PTE_V \<noteq> 0 \<and>
      pte_flags (mem s (pte_addr (pagenum_to_pageptr (pte_ppn (mem s (pte_addr root (VPN2 va)))))
                                 (VPN1 va))) AND PTE_V \<noteq> 0)"

definition level0_table :: "mstate \<Rightarrow> 64 word \<Rightarrow> 64 word \<Rightarrow> 64 word" where
  "level0_table s root va =
     pagenum_to_pageptr (pte_ppn (mem s (pte_addr (pagenum_to_pageptr (pte_ppn (mem s (pte_addr root (VPN2 va)))))
                                                  (VPN1 va))))"

text \<open>
  \<open>memory_alloc_and_map_page\<close>: walks with \<open>create = 1\<close>, takes a page from the pool, writes
  its number into the leaf and ORs \<open>V | flags | A | D\<close> into the flags the leaf already has.
\<close>

definition memory_alloc_and_map_page :: "mstate \<Rightarrow> 64 word \<Rightarrow> 8 word \<Rightarrow> failure + (64 word \<times> mstate)" where
  "memory_alloc_and_map_page s vma rwxug_flags =
     (case walk_pt s (active_space_root s) vma True of
        Inl e \<Rightarrow> Inl e
      | Inr (pt0, s1) \<Rightarrow>
          if pt0 = 0 then Inl (Panic ''Walk unable to create valid page'')
          else (case memory_alloc_page s1 of
                  Inl e \<Rightarrow> Inl e
                | Inr (page, s2) \<Rightarrow>
                    let ppn = pageptr_to_pagenum page;
                        leaf = pte_addr pt0 (VPN0 vma);
                        s3 = s2\<lparr>mem := (mem s2)(leaf := set_pte_ppn (mem s2 leaf) ppn)\<rparr>;
                        s4 = s3\<lparr>mem := (mem s3)(leaf := set_pte_flags (mem s3 leaf)
                                 (pte_flags (mem s3 leaf) OR (PTE_V OR rwxug_flags OR PTE_A OR PTE_D)))\<rparr>;
                        pma = page OR (vma AND 0xFFF)
                    in Inr (pma, s4)))"

text \<open>
  \<open>memory_handle_page_fault\<close>. Modelled from the spec: \<open>USER_START_VMA\<close> and
  \<open>USER_END_VMA\<close> are defined in config.h, which is not among the sources; they are the
  parameters \<open>ustart\<close> and \<open>uend\<close>, the bounds of the user range.
\<close>

definition memory_handle_page_fault :: "64 word \<Rightarrow> 64 word \<Rightarrow> mstate \<Rightarrow> 64 word \<Rightarrow> failure + mstate" where
  "memory_handle_page_fault ustart uend s vptr =
     (let aligned_vptr = vptr AND NOT (PAGE_SIZE - 1) in
      if aligned_vptr < ustart \<or> aligned_vptr + PAGE_SIZE > uend
      then Inl (Panic ''Out of USER bound'')
      else (case memory_alloc_and_map_page s aligned_vptr (PTE_R OR PTE_W OR PTE_U) of
              Inl e \<Rightarrow> Inl e
            | Inr (p, s') \<Rightarrow> Inr s'))"

text \<open>
  \<open>walk_and_free_user(root)\<close>. The source recurses with no bound on the depth, so on a
  table that leads back to itself it never returns. The first argument bounds the depth
  of the recursion; \<open>None\<close> is a recursion deeper than that. Each of the 512 entries is
  read from memory as it is when the loop reaches it; the page number read before the
  recursive call is the one freed after it.
\<close>

primrec walk_and_free_user :: "nat \<Rightarrow> 64 word \<Rightarrow> mstate \<Rightarrow> mstate option" where
  "walk_and_free_user 0 root s = None"
| "walk_and_free_user (Suc d) root s =
     fold (\<lambda>i r. case r of
             None \<Rightarrow> None
           | Some s0 \<Rightarrow>
               (let page_num = pte_ppn (mem s0 (pte_addr root (of_nat i)));
                    page_flags = pte_flags (mem s0 (pte_addr root (of_nat i)))
                in if page_flags AND PTE_U \<noteq> 0
                   then (case (if page_flags AND PTE_V \<noteq> 0 \<and> page_flags AND (PTE_R OR PTE_W OR PTE_X) = 0
                               then walk_and_free_user d (pagenum_to_pageptr page_num) s0
                               else Some s0) of
                           None \<Rightarrow> None
                         | Some s1 \<Rightarrow> Some (memory_free_page (pagenum_to_pageptr page_num) s1))
                   else Some s0))
          [0..<PTE_PER_LEVEL] (Some s)"

definition memory_unmap_and_free_user :: "nat \<Rightarrow> mstate \<Rightarrow> mstate option" where
  "memory_unmap_and_free_user d s = walk_and_free_user d (active_space_root s) s"

text \<open>
  Modelled from the spec: \<open>memory_space_switch\<close> is defined in memory.h, which is not
  among the sources. It writes the translation register (and flushes the TLB, which the
  model does not have).
\<close>

definition memory_space_switch :: "64 word \<Rightarrow> mstate \<Rightarrow> mstate" where
  "memory_space_switch mtag s = s\<lparr>satp := mtag\<rparr>"

definition memory_space_reclaim :: "nat \<Rightarrow> mstate \<Rightarrow> mstate option" where
  "memory_space_reclaim d s =
     (case memory_unmap_and_free_user d s of
        None \<Rightarrow> None
      | Some s1 \<Rightarrow> Some (memory_space_switch (main_mtag s1) s1))"

text \<open>
  A user leaf for \<open>va\<close> is reachable from the root of the active space when the walk
  (without creation) finds a level-0 table and the entry of \<open>va\<close> in it has V and U set.
\<close>

definition user_leaf_at :: "mstate \<Rightarrow> 64 word \<Rightarrow> bool" where
  "user_leaf_at s va =
     (case walk_pt s (active_space_root s) va False of
        Inl e \<Rightarrow> False
      | Inr (pt0, s') \<Rightarrow>
          pt0 \<noteq> 0 \<and> pte_flags (mem s (pte_addr pt0 (VPN0 va))) AND PTE_V \<noteq> 0
                  \<and> pte_flags (mem s (pte_addr pt0 (VPN0 va))) AND PTE_U \<noteq> 0)"

text \<open>C's \<open>a && b\<close> on integers: 1 when both are non-zero, 0 otherwise.\<close>

definition c_land :: "8 word \<Rightarrow> 8 word \<Rightarrow> 8 word" where
  "c_land a b = (if a \<noteq> 0 \<and> b \<noteq> 0 then 1 else 0)"

text \<open>
  \<open>memory_validate_vptr_len\<close>. \<open>page\<close> is the pointer \<open>walk_pt\<close> returns, the level-0
  table, and \<open>page->flags\<close> reads the flags of the first entry of that table. \<open>len\<close> is
  a \<open>size_t\<close>: \<open>len -= n\<close> wraps around when \<open>n\<close> exceeds it. The loop has no bound, so
  the function is partial: \<open>None\<close> is a loop that never ends.
\<close>

partial_function (option) memory_validate_vptr_len ::
  "mstate \<Rightarrow> 64 word \<Rightarrow> 64 word \<Rightarrow> 8 word \<Rightarrow> (failure + int) option" where
  "memory_validate_vptr_len s vp len rwxug_flags =
     (if len > 0 then
        (let aligned_vp = vp AND NOT (PAGE_SIZE - 1) in
         case walk_pt s (active_space_root s) aligned_vp False of
           Inl e \<Rightarrow> Some (Inl e)
         | Inr (page, s') \<Rightarrow>
             let page_addr = pagenum_to_pageptr page in
             if page_addr = 0 then Some (Inl (Errno EBADFMT))
             else if c_land (pte_flags (mem s page)) PTE_V = 0 then Some (Inl (Errno EBADFMT))
             else if c_land (pte_flags (mem s page)) rwxug_flags \<noteq> rwxug_flags then Some (Inl (Errno EBADFMT))
             else (let n = PAGE_SIZE - (vp - aligned_vp)
                   in memory_validate_vptr_len s (aligned_vp + PAGE_SIZE) (len - n) rwxug_flags))
      else Some (Inr 0))"

text \<open>
  The frame a leaf for \<open>va\<close> in the active space points to, and whether all 512 cells of
  a frame are zero.
\<close>

definition leaf_entry :: "mstate \<Rightarrow> 64 word \<Rightarrow> 64 word" where
  "leaf_entry s va = mem s (pte_addr (level0_table s (active_space_root s) va) (VPN0 va))"

definition leaf_frame :: "mstate \<Rightarrow> 64 word \<Rightarrow> 64 word" where
  "leaf_frame s va = pagenum_to_pageptr (pte_ppn (leaf_entry s va))"

definition frame_zero :: "mstate \<Rightarrow> 64 word \<Rightarrow> bool" where
  "frame_zero s p = list_all (\<lambda>i. mem s (p + 8 * of_nat i) = 0) [0..<512]"

subsection \<open>Two concrete machine states\<close>

text \<open>
  \<open>demo_state\<close>: the main space is active, with its root table at \<open>0x80001000\<close> holding
  the three kernel entries \<open>memory_init\<close> writes (two \<open>R|W|G\<close> gigapages and the pointer to
  the level-1 table of RAM); the pool holds the four pages \<open>0x80004000\<close> to \<open>0x80007000\<close>,
  linked in this order, and the third of them still holds data of an earlier use in its
  second cell. \<open>faulted_state\<close> is what a page fault at \<open>0xC0000123\<close> makes of it.
\<close>

definition demo_state :: mstate where
  "demo_state =
     \<lparr>mem = (\<lambda>_. 0)(0x80001000 := 0xE7, 0x80001008 := 0x100000E7, 0x80001010 := 0x20000821,
                     0x80004000 := 0x80005000, 0x80005000 := 0x80006000,
                     0x80006000 := 0x80007000, 0x80006008 := 0xDEADBEEF),
      free_list = 0x80004000, satp = 0x8000000000080001, main_mtag = 0x8000000000080001\<rparr>"

definition faulted_state :: mstate where
  "faulted_state =
     \<lparr>mem = (\<lambda>_. 0)(0x80001000 := 0xE7, 0x80001008 := 0x100000E7, 0x80001010 := 0x20000821,
                     0x80004000 := 0x80005000, 0x80005000 := 0x80006000,
                     0x80006000 := 0x80007000, 0x80006008 := 0xDEADBEEF,
                     0x80001018 := 0x20001001, 0x80004000 := 0x20001401, 0x80005000 := 0x200018D7),
      free_list = 0x80007000, satp = 0x8000000000080001, main_mtag = 0x8000000000080001\<rparr>"

section \<open>Processes and I/O handles (process.c, syscall.c)\<close>

text \<open>
  A \<open>struct io_intf\<close> and a \<open>struct process\<close> are objects named by their address, a
  natural number; \<open>None\<close> is the null pointer. The process layer's state holds the
  process objects, \<open>proctab\<close>, the process of the running thread, the reference count of
  every I/O handle, and the sequence of handles on which the underlying close operation
  (\<open>io->ops->close\<close>: \<open>vioblk_close\<close>, \<open>fs_close\<close>, \<open>iolit_close\<close>, ...) has been
  invoked, oldest first. The arrays \<open>iotab\<close> (\<open>PROCESS_IOMAX = 16\<close> slots) and \<open>proctab\<close>
  (\<open>NPROC = 16\<close> slots) are functions of the index; the code reads and writes them only
  at indices it has bounded.
\<close>

record process =
  proc_id :: nat
  proc_tid :: int
  proc_mtag :: "64 word"
  iotab :: "nat \<Rightarrow> nat option"

record pstate =
  procs :: "nat \<Rightarrow> process"
  proctab :: "nat \<Rightarrow> nat option"
  curproc :: nat
  refcnt :: "nat \<Rightarrow> int"
  close_calls :: "nat list"

definition PROCESS_IOMAX :: nat where "PROCESS_IOMAX = 16"
definition NPROC :: nat where "NPROC = 16"

text \<open>
  Modelled from the spec: \<open>current_process\<close> is \<open>thread_process(running_thread())\<close>, and
  thread.c is not among the sources; it is the process the state records as current.
\<close>

definition current_process :: "pstate \<Rightarrow> nat" where
  "current_process k = curproc k"

text \<open>The call \<open>io->ops->close(io)\<close>: the underlying close of the handle, recorded.\<close>

definition ops_close :: "nat \<Rightarrow> pstate \<Rightarrow> pstate" where
  "ops_close io k = k\<lparr>close_calls := close_calls k @ [io]\<rparr>"

text \<open>
  Modelled from the spec: \<open>ioclose\<close> and \<open>ioref\<close> are defined in io.h, which is not among
  the sources. \<open>ioclose\<close> decrements the reference count and reaches the underlying close
  only when the count is zero; \<open>ioref\<close> increments the count and returns it.
\<close>

definition ioclose :: "nat \<Rightarrow> pstate \<Rightarrow> pstate" where
  "ioclose io k =
     (let k1 = k\<lparr>refcnt := (refcnt k)(io := refcnt k io - 1)\<rparr>
      in if refcnt k1 io = 0 then ops_close io k1 else k1)"

definition ioref :: "nat \<Rightarrow> pstate \<Rightarrow> int \<times> pstate" where
  "ioref io k = (refcnt k io + 1, k\<lparr>refcnt := (refcnt k)(io := refcnt k io + 1)\<rparr>)"

definition set_iotab :: "nat \<Rightarrow> nat \<Rightarrow> nat option \<Rightarrow> pstate \<Rightarrow> pstate" where
  "set_iotab proc i v k =
     k\<lparr>procs := (procs k)(proc := (procs k proc)\<lparr>iotab := (iotab (procs k proc))(i := v)\<rparr>)\<rparr>"

text \<open>
  \<open>process_exit\<close>: frees the user memory and reclaims the space (with the depth bound of
  \<open>walk_and_free_user\<close>), then, for every slot of the descriptor table that is not null,
  calls the handle's \<open>ops->close\<close> and nulls the slot (\<open>exit_step\<close> is the body of that
  loop), and nulls the \<open>proctab\<close> entry. The state returned is the one \<open>thread_exit\<close> is
  called in (thread.c is not among the sources).
\<close>

definition exit_step :: "nat \<Rightarrow> nat \<Rightarrow> pstate \<Rightarrow> pstate" where
  "exit_step proc i k0 =
     (case iotab (procs k0 proc) i of
        None \<Rightarrow> k0
      | Some io \<Rightarrow> set_iotab proc i None (ops_close io k0))"

definition process_exit :: "nat \<Rightarrow> mstate \<Rightarrow> pstate \<Rightarrow> (mstate \<times> pstate) option" where
  "process_exit d ms k =
     (case memory_unmap_and_free_user d ms of
        None \<Rightarrow> None
      | Some ms1 \<Rightarrow>
          (case memory_space_reclaim d ms1 of
             None \<Rightarrow> None
           | Some ms2 \<Rightarrow>
               let proc = current_process k;
                   k1 = fold (exit_step proc) [0..<PROCESS_IOMAX] k;
                   k2 = k1\<lparr>proctab := (proctab k1)(proc_id (procs k1 proc) := None)\<rparr>
               in Some (ms2, k2)))"

text \<open>
  \<open>process_fork(pid)\<close>: the first free slot of \<open>proctab\<close> becomes the child's pid; the
  child's descriptor table is the parent's, slot for slot, with the reference count of
  every handle set to what \<open>ioref\<close> returns (\<open>fork_step\<close> is the body of that loop).
  \<open>child_ptr\<close> is the address \<open>kmalloc\<close> returns and \<open>new_mtag\<close> the result of
  \<open>memory_space_clone\<close>, whose work on memory is not part of this state. The result
  \<open>None\<close> is the \<open>NULL\<close> returned when the table is full. The source dereferences
  \<open>proctab[pid]\<close> unchecked; where it is null the behaviour is undefined, and the model
  fails.
\<close>

definition fork_step :: "nat \<Rightarrow> nat \<Rightarrow> nat \<Rightarrow> pstate \<Rightarrow> pstate" where
  "fork_step parent child i k0 =
     (case iotab (procs k0 parent) i of
        Some io \<Rightarrow>
          (let ka = set_iotab child i (Some io) k0;
               (r, kb) = ioref io ka
           in kb\<lparr>refcnt := (refcnt kb)(io := r)\<rparr>)
      | None \<Rightarrow> set_iotab child i None k0)"

definition process_fork ::
  "nat \<Rightarrow> 64 word \<Rightarrow> pstate \<Rightarrow> nat \<Rightarrow> failure + (nat option \<times> pstate)" where
  "process_fork child_ptr new_mtag k pid =
     (case find (\<lambda>i. proctab k i = None) [0..<NPROC] of
        None \<Rightarrow> Inr (None, k)
      | Some new_pid \<Rightarrow>
          (case proctab k pid of
             None \<Rightarrow> Inl (Panic ''process_fork: proctab[pid] is null'')
           | Some parent \<Rightarrow>
               let k1 = k\<lparr>procs := (procs k)(child_ptr :=
                            (procs k child_ptr)\<lparr>proc_id := new_pid, proc_mtag := new_mtag\<rparr>)\<rparr>;
                   k2 = fold (fork_step parent child_ptr) [0..<PROCESS_IOMAX] k1
               in Inr (Some child_ptr, k2\<lparr>proctab := (proctab k2)(new_pid := Some child_ptr)\<rparr>)))"

text \<open>
  \<open>sysdevopen\<close> and \<open>sysfsopen\<close>. The name is \<open>None\<close> for a null pointer. \<open>device_open\<close>
  (device.c, not among the sources) and \<open>fs_open\<close> are parameters: given the name they
  yield an error or the handle. On the failure paths \<open>sysdevopen\<close> calls \<open>ioclose\<close> and
  \<open>sysfsopen\<close> calls \<open>fs_close\<close>, the underlying close of a file. The search for a free
  slot is the source's loop from 0.
\<close>

definition sysdevopen ::
  "(string \<Rightarrow> int \<Rightarrow> failure + nat) \<Rightarrow> pstate \<Rightarrow> int \<Rightarrow> string option \<Rightarrow> int \<Rightarrow> (failure + int) \<times> pstate" where
  "sysdevopen device_open k fd name instno =
     (let proc = current_process k in
      case name of
        None \<Rightarrow> (Inl (Errno EINVAL), k)
      | Some nm \<Rightarrow>
          (case device_open nm instno of
             Inl e \<Rightarrow> (Inl e, k)
           | Inr io \<Rightarrow>
               (case (if fd \<ge> 0
                      then (if fd \<ge> int PROCESS_IOMAX then Inl (Errno EMFILE, ioclose io k)
                            else if iotab (procs k proc) (nat fd) \<noteq> None then Inl (Errno EBADFD, ioclose io k)
                            else Inr (nat fd))
                      else (case find (\<lambda>i. iotab (procs k proc) i = None) [0..<PROCESS_IOMAX] of
                              None \<Rightarrow> Inl (Errno EMFILE, ioclose io k)
                            | Some i \<Rightarrow> Inr i)) of
                  Inl (e, k') \<Rightarrow> (Inl e, k')
                | Inr new_fd \<Rightarrow>
                    let k1 = set_iotab proc new_fd (Some io) k;
                        k2 = k1\<lparr>refcnt := (refcnt k1)(io := 1)\<rparr>
                    in (Inr (int new_fd), k2))))"

definition sysfsopen ::
  "(string \<Rightarrow> failure + nat) \<Rightarrow> pstate \<Rightarrow> int \<Rightarrow> string option \<Rightarrow> (failure + int) \<times> pstate" where
  "sysfsopen fs_open k fd name =
     (let proc = current_process k in
      case name of
        None \<Rightarrow> (Inl (Errno EINVAL), k)
      | Some nm \<Rightarrow>
          (case fs_open nm of
             Inl e \<Rightarrow> (Inl e, k)
           | Inr io \<Rightarrow>
               (case (if fd \<ge> 0
                      then (if fd \<ge> int PROCESS_IOMAX then Inl (Errno EMFILE, ops_close io k)
                            else if iotab (procs k proc) (nat fd) \<noteq> None then Inl (Errno EBADFD, ops_close io k)
                            else Inr (nat fd))
                      else (case find (\<lambda>i. iotab (procs k proc) i = None) [0..<PROCESS_IOMAX] of
                              None \<Rightarrow> Inl (Errno EMFILE, ops_close io k)
                            | Some i \<Rightarrow> Inr i)) of
                  Inl (e, k') \<Rightarrow> (Inl e, k')
                | Inr new_fd \<Rightarrow>
                    let k1 = set_iotab proc new_fd (Some io) k;
                        k2 = k1\<lparr>refcnt := (refcnt k1)(io := 1)\<rparr>
                    in (Inr (int new_fd), k2))))"

text \<open>\<open>sysclose\<close>, the sibling path that closes a descriptor through \<open>ioclose\<close>.\<close>

definition sysclose :: "pstate \<Rightarrow> int \<Rightarrow> (failure + int) \<times> pstate" where
  "sysclose k fd =
     (let proc = current_process k in
      if fd < 0 \<or> fd \<ge> int PROCESS_IOMAX then (Inl (Errno EBADFD), k)
      else (case iotab (procs k proc) (nat fd) of
              None \<Rightarrow> (Inl (Errno EBADFD), k)
            | Some io \<Rightarrow> (Inr 0, set_iotab proc (nat fd) None (ioclose io k))))"

text \<open>
  \<open>sysmsgout\<close>. The validation of the message is commented out in the source; what is
  left is the \<open>kprintf\<close> and \<open>return 0\<close>. \<open>read_str\<close> stands for the supervisor's read of
  the string at \<open>msg\<close>: \<open>None\<close> when the read faults, which in S mode ends in
  \<open>default_excp_handler\<close> and its \<open>panic(NULL)\<close> (excp.c). The console is the list of lines
  printed, each with the thread's name and id.
\<close>

definition sysmsgout ::
  "(64 word \<Rightarrow> string option) \<Rightarrow> string \<Rightarrow> int \<Rightarrow> (string \<times> int \<times> string) list \<Rightarrow> 64 word
     \<Rightarrow> (failure + int) \<times> (string \<times> int \<times> string) list" where
  "sysmsgout read_str thr_name tid console msg =
     (case read_str msg of
        None \<Rightarrow> (Inl (Panic []), console)
      | Some text \<Rightarrow> (Inr 0, console @ [(thr_name, tid, text)]))"

text \<open>
  \<open>sysfork\<close>. \<open>thread_fork_to_user\<close> is part of thread.c, which is not among the sources;
  \<open>fork_res\<close> is what it returns for the child \<open>process_fork\<close> made: the child's thread id,
  or a negative error code. Both tests of the source return that value.
\<close>

definition sysfork :: "nat \<Rightarrow> 64 word \<Rightarrow> (failure + int) \<Rightarrow> pstate \<Rightarrow> (failure + int) \<times> pstate" where
  "sysfork child_ptr new_mtag fork_res k =
     (let proc = current_process k in
      case process_fork child_ptr new_mtag k (proc_id (procs k proc)) of
        Inl e \<Rightarrow> (Inl e, k)
      | Inr (None, k') \<Rightarrow> (Inl (Errno EBUSY), k')
      | Inr (Some child, k') \<Rightarrow>
          (case fork_res of
             Inl e \<Rightarrow> (Inl e, k')
           | Inr child_pid \<Rightarrow> (Inr child_pid, k')))"

subsection \<open>Two concrete process states\<close>

text \<open>
  \<open>parent_state\<close>: process 0 (the object at 100) is running and has the handle 7 open in
  slot 0, with reference count 1. \<open>forked_state\<close>: the same after a fork, seen from the
  child (the object at 200, pid 1), which shares the handle; the count is 2.
\<close>

definition null_process :: process where
  "null_process = \<lparr>proc_id = 0, proc_tid = 0, proc_mtag = 0, iotab = (\<lambda>_. None)\<rparr>"

definition parent_state :: pstate where
  "parent_state =
     \<lparr>procs = (\<lambda>_. null_process)(100 := \<lparr>proc_id = 0, proc_tid = 0, proc_mtag = 0x8000000000080001,
                                            iotab = (\<lambda>_. None)(0 := Some 7)\<rparr>),
      proctab = (\<lambda>_. None)(0 := Some 100),
      curproc = 100,
      refcnt = (\<lambda>_. 0)(7 := 1),
      close_calls = []\<rparr>"

section \<open>Completing a fork in the child (thrasm.s)\<close>

text \<open>
  The hart: the integer registers \<open>x1\<close> to \<open>x31\<close> (\<open>x0\<close> reads as zero and ignores
  writes), the four supervisor registers the routine writes, and memory as 64-bit cells.
  In the ABI names of the source, \<open>ra = x1\<close>, \<open>sp = x2\<close>, \<open>gp = x3\<close>, \<open>tp = x4\<close>,
  \<open>t0 = x5\<close>, \<open>s0 = x8\<close>, \<open>s1 = x9\<close>, \<open>a0 = x10\<close>, \<open>a1 = x11\<close>, \<open>s2\<close> to \<open>s11\<close> are
  \<open>x18\<close> to \<open>x27\<close>, and \<open>t6 = x31\<close>.
\<close>

record hart =
  xreg :: "nat \<Rightarrow> 64 word"
  stvec :: "64 word"
  sscratch :: "64 word"
  sepc :: "64 word"
  sstatus :: "64 word"
  dmem :: "64 word \<Rightarrow> 64 word"

datatype csr = Stvec | Sscratch | Sepc | Sstatus

datatype instr =
    LA nat "64 word"
  | LI nat "64 word"
  | MV nat nat
  | LD nat "64 word" nat
  | SD nat "64 word" nat
  | CSRW csr nat
  | SRET

definition get_reg :: "hart \<Rightarrow> nat \<Rightarrow> 64 word" where
  "get_reg h r = (if r = 0 then 0 else xreg h r)"

definition set_reg :: "nat \<Rightarrow> 64 word \<Rightarrow> hart \<Rightarrow> hart" where
  "set_reg r v h = (if r = 0 then h else h\<lparr>xreg := (xreg h)(r := v)\<rparr>)"

text \<open>
  One instruction. \<open>LA rd a\<close> loads the address \<open>a\<close> of a symbol; \<open>LD rd off rs\<close> is
  \<open>ld rd, off(rs)\<close> and \<open>SD rs2 off rs\<close> is \<open>sd rs2, off(rs)\<close>. \<open>SRET\<close> leaves the
  registers as they are: the hart continues at \<open>sepc\<close> in the mode \<open>sstatus\<close> names.
\<close>

fun exec :: "instr \<Rightarrow> hart \<Rightarrow> hart" where
  "exec (LA rd a) h = set_reg rd a h"
| "exec (LI rd v) h = set_reg rd v h"
| "exec (MV rd rs) h = set_reg rd (get_reg h rs) h"
| "exec (LD rd off rs) h = set_reg rd (dmem h (get_reg h rs + off)) h"
| "exec (SD rs2 off rs) h = h\<lparr>dmem := (dmem h)(get_reg h rs + off := get_reg h rs2)\<rparr>"
| "exec (CSRW Stvec rs) h = h\<lparr>stvec := get_reg h rs\<rparr>"
| "exec (CSRW Sscratch rs) h = h\<lparr>sscratch := get_reg h rs\<rparr>"
| "exec (CSRW Sepc rs) h = h\<lparr>sepc := get_reg h rs\<rparr>"
| "exec (CSRW Sstatus rs) h = h\<lparr>sstatus := get_reg h rs\<rparr>"
| "exec SRET h = h"

text \<open>
  \<open>_thread_finish_fork\<close>, instruction by instruction. On entry \<open>a0\<close> is the child's
  thread pointer and \<open>a1\<close> the address of the parent's trap frame, whose slot \<open>i\<close> is
  \<open>x[i]\<close> for \<open>i < 32\<close>, slot 32 \<open>sstatus\<close> and slot 33 \<open>sepc\<close>; \<open>trap_entry\<close> is the
  address of \<open>_trap_entry_from_umode\<close>. The load of \<open>x4\<close> is commented out in the source
  and is absent here.
\<close>

definition thread_finish_fork_code :: "64 word \<Rightarrow> instr list" where
  "thread_finish_fork_code trap_entry =
     [LA 5 trap_entry, CSRW Stvec 5, LD 5 (15 * 8) 10, CSRW Sscratch 5,
      LD 31 (33 * 8) 11, CSRW Sepc 31, LD 31 (32 * 8) 11, CSRW Sstatus 31,
      SD 8 (0 * 8) 4, SD 9 (1 * 8) 4, SD 18 (2 * 8) 4, SD 19 (3 * 8) 4, SD 20 (4 * 8) 4,
      SD 21 (5 * 8) 4, SD 22 (6 * 8) 4, SD 23 (7 * 8) 4, SD 24 (8 * 8) 4, SD 25 (9 * 8) 4,
      SD 26 (10 * 8) 4, SD 27 (11 * 8) 4, SD 1 (12 * 8) 4, SD 2 (13 * 8) 4,
      MV 4 10,
      LD 31 (31 * 8) 11, LD 30 (30 * 8) 11, LD 29 (29 * 8) 11, LD 28 (28 * 8) 11,
      LD 27 (27 * 8) 11, LD 26 (26 * 8) 11, LD 25 (25 * 8) 11, LD 24 (24 * 8) 11,
      LD 23 (23 * 8) 11, LD 22 (22 * 8) 11, LD 21 (21 * 8) 11, LD 20 (20 * 8) 11,
      LD 19 (19 * 8) 11, LD 18 (18 * 8) 11, LD 17 (17 * 8) 11, LD 16 (16 * 8) 11,
      LD 15 (15 * 8) 11, LD 14 (14 * 8) 11, LD 13 (13 * 8) 11, LD 12 (12 * 8) 11,
      LI 10 0,
      LD 9 (9 * 8) 11, LD 8 (8 * 8) 11, LD 7 (7 * 8) 11, LD 6 (6 * 8) 11, LD 5 (5 * 8) 11,
      LD 3 (3 * 8) 11, LD 2 (2 * 8) 11, LD 1 (1 * 8) 11, LD 11 (11 * 8) 11,
      SRET]"

definition thread_finish_fork :: "64 word \<Rightarrow> hart \<Rightarrow> hart" where
  "thread_finish_fork trap_entry h = fold exec (thread_finish_fork_code trap_entry) h"

text \<open>The 14 cells of the context of the thread at \<open>tp\<close>, where the routine saves registers.\<close>

definition ctx_cells :: "64 word \<Rightarrow> 64 word list" where
  "ctx_cells tp = map (\<lambda>j. tp + of_nat j * 8) [0..<14]"

text \<open>
  A hart about to run the routine: the running (parent) thread at \<open>0x80200000\<close>, the
  child thread at \<open>0x80300000\<close>, the parent's trap frame at \<open>0x80400000\<close> with
  \<open>x[4] = 0x1234\<close> (the parent's \<open>tp\<close> in user mode) and \<open>x[10] = 9\<close>.
\<close>

definition fork_hart :: hart where
  "fork_hart =
     \<lparr>xreg = (\<lambda>_. 0)(4 := 0x80200000, 10 := 0x80300000, 11 := 0x80400000),
      stvec = 0, sscratch = 0, sepc = 0, sstatus = 0,
      dmem = (\<lambda>_. 0)(0x80400008 := 0x11, 0x80400020 := 0x1234, 0x80400050 := 9,
                      0x80400100 := 0x20, 0x80400108 := 0xC0000040, 0x80300078 := 0x80310000)\<rparr>"

section \<open>The block device (vioblk.c)\<close>

text \<open>
  The fields of \<open>struct vioblk_device\<close> the read and write paths use, the header of the
  request last queued left out in favour of \<open>req_log\<close>, the list of all request headers
  \<open>(type, sector)\<close> made available to the device, oldest first. Buffers are functions of
  the byte offset.

  Modelled from the spec: the device itself is not code of the repository. It answers a
  request with a status byte, \<open>status_of type sector\<close>; on status OK it has, for an IN
  request, filled the block buffer with block \<open>sector\<close> of \<open>medium\<close> and, for an OUT
  request, stored the block buffer as block \<open>sector\<close>.
\<close>

record vioblk_device =
  opened :: bool
  readonly :: bool
  blksz :: "32 word"
  pos :: "64 word"
  bufblkno :: "64 word"
  blkbuf :: "nat \<Rightarrow> 8 word"
  avail_idx :: "16 word"
  data_desc_write :: bool
  req_log :: "(32 word \<times> 64 word) list"
  medium :: "64 word \<Rightarrow> nat \<Rightarrow> 8 word"

definition VIRTIO_BLK_T_IN :: "32 word" where "VIRTIO_BLK_T_IN = 0"
definition VIRTIO_BLK_T_OUT :: "32 word" where "VIRTIO_BLK_T_OUT = 1"
definition VIRTIO_BLK_S_OK :: "8 word" where "VIRTIO_BLK_S_OK = 0"

text \<open>
  \<open>operation_single_blk(dev, sector, datasz, type)\<close>: \<open>sector\<close> is a \<open>uint32_t\<close>, widened
  into the 64-bit field of the header. The wait for the device is the device's answer.
  The result is \<open>dev->blksz\<close>, or \<open>-EIO\<close> when the status is not OK.
\<close>

definition operation_single_blk ::
  "(32 word \<Rightarrow> 64 word \<Rightarrow> 8 word) \<Rightarrow> vioblk_device \<Rightarrow> 32 word \<Rightarrow> 64 word \<Rightarrow> 32 word
     \<Rightarrow> (failure + int) \<times> vioblk_device" where
  "operation_single_blk status_of dev sector datasz type =
     (let d1 = dev\<lparr>req_log := req_log dev @ [(type, ucast sector)]\<rparr>;
          d2 = (if type = VIRTIO_BLK_T_IN then d1\<lparr>data_desc_write := True\<rparr> else d1);
          d3 = d2\<lparr>avail_idx := avail_idx d2 + 1\<rparr>;
          status = status_of type (ucast sector);
          d4 = (if status = VIRTIO_BLK_S_OK
                then (if type = VIRTIO_BLK_T_IN then d3\<lparr>blkbuf := medium d3 (ucast sector)\<rparr>
                      else if type = VIRTIO_BLK_T_OUT
                      then d3\<lparr>medium := (medium d3)(ucast sector := blkbuf d3)\<rparr>
                      else d3)
                else d3)
      in if status \<noteq> VIRTIO_BLK_S_OK then (Inl (Errno EIO), d4)
         else (Inr (uint (blksz d4)), d4))"

text \<open>\<open>memcpy(dst + doff, src + soff, n)\<close> on buffers that are functions of the offset.\<close>

definition memcpy :: "(nat \<Rightarrow> 8 word) \<Rightarrow> nat \<Rightarrow> (nat \<Rightarrow> 8 word) \<Rightarrow> nat \<Rightarrow> nat \<Rightarrow> (nat \<Rightarrow> 8 word)" where
  "memcpy dst doff src soff n = (\<lambda>i. if doff \<le> i \<and> i < doff + n then src (soff + (i - doff)) else dst i)"

text \<open>
  The loop of \<open>vioblk_read\<close>. \<open>bufsz\<close> is an \<open>unsigned long\<close> and \<open>bufsz -= result\<close> wraps
  around; the loop has no other bound, so the function is partial. \<open>boff\<close> is how far
  \<open>buf\<close> has advanced. The sleep lock \<open>vio_lock\<close>, taken around the loop, is not part of
  the model: a call is one uninterrupted step.
\<close>

partial_function (option) vioblk_read_loop ::
  "(32 word \<Rightarrow> 64 word \<Rightarrow> 8 word) \<Rightarrow> vioblk_device \<Rightarrow> (nat \<Rightarrow> 8 word) \<Rightarrow> nat \<Rightarrow> 64 word \<Rightarrow> int
     \<Rightarrow> ((failure + int) \<times> (nat \<Rightarrow> 8 word) \<times> vioblk_device) option" where
  "vioblk_read_loop status_of dev buf boff bufsz bytes_read =
     (if bufsz > 0 then
        (let sector_size = (if bufsz < ucast (blksz dev) then bufsz else ucast (blksz dev)) in
         case operation_single_blk status_of dev (ucast (bufblkno dev)) sector_size VIRTIO_BLK_T_IN of
           (Inl e, d1) \<Rightarrow> Some (Inl (Errno EIO), buf, d1)
         | (Inr result, d1) \<Rightarrow>
             vioblk_read_loop status_of
               (d1\<lparr>bufblkno := bufblkno d1 + 1, pos := pos d1 + ucast (blksz d1)\<rparr>)
               (memcpy buf boff (blkbuf d1) 0 (unat (blksz d1)))
               (boff + nat result) (bufsz - word_of_int result) (bytes_read + result))
      else Some (Inr bytes_read, buf, dev))"

text \<open>
  \<open>vioblk_read\<close>. The start block is computed from \<open>pos\<close> before anything is checked. A
  block size of zero makes the division undefined in C; the model fails there, as it
  does when \<open>assert (dev->opened)\<close> fails.
\<close>

definition vioblk_read ::
  "(32 word \<Rightarrow> 64 word \<Rightarrow> 8 word) \<Rightarrow> vioblk_device \<Rightarrow> (nat \<Rightarrow> 8 word) \<Rightarrow> 64 word
     \<Rightarrow> ((failure + int) \<times> (nat \<Rightarrow> 8 word) \<times> vioblk_device) option" where
  "vioblk_read status_of dev buf bufsz =
     (if blksz dev = 0 then Some (Inl (Panic ''division by zero''), buf, dev)
      else (let d0 = dev\<lparr>bufblkno := pos dev div ucast (blksz dev)\<rparr> in
            if \<not> opened d0 then Some (Inl (Panic ''assertion failed: dev->opened''), buf, d0)
            else if bufsz = 0 then Some (Inr 0, buf, d0)
            else if bufsz mod ucast (blksz d0) \<noteq> 0 then Some (Inl (Errno ENOTSUP), buf, d0)
            else vioblk_read_loop status_of d0 buf 0 bufsz 0))"

text \<open>
  The loop of \<open>vioblk_write\<close>. The sector of each request is the local \<open>int sector\<close>,
  which starts at 0 and counts the blocks of this call.
\<close>

partial_function (option) vioblk_write_loop ::
  "(32 word \<Rightarrow> 64 word \<Rightarrow> 8 word) \<Rightarrow> vioblk_device \<Rightarrow> (nat \<Rightarrow> 8 word) \<Rightarrow> nat \<Rightarrow> 64 word \<Rightarrow> 32 word \<Rightarrow> int
     \<Rightarrow> ((failure + int) \<times> vioblk_device) option" where
  "vioblk_write_loop status_of dev buf boff n sector bytes_written =
     (if n > 0 then
        (let sector_size = (if n < ucast (blksz dev) then n else ucast (blksz dev));
             d0 = dev\<lparr>blkbuf := memcpy (blkbuf dev) 0 buf boff (unat (blksz dev))\<rparr> in
         case operation_single_blk status_of d0 sector sector_size VIRTIO_BLK_T_OUT of
           (Inl e, d1) \<Rightarrow> Some (Inl (Errno EIO), d1)
         | (Inr result, d1) \<Rightarrow>
             vioblk_write_loop status_of (d1\<lparr>pos := pos d1 + word_of_int result\<rparr>) buf
               (boff + nat result) (n - word_of_int result) (sector + 1) (bytes_written + result))
      else Some (Inr bytes_written, dev))"

definition vioblk_write ::
  "(32 word \<Rightarrow> 64 word \<Rightarrow> 8 word) \<Rightarrow> vioblk_device \<Rightarrow> (nat \<Rightarrow> 8 word) \<Rightarrow> 64 word
     \<Rightarrow> ((failure + int) \<times> vioblk_device) option" where
  "vioblk_write status_of dev buf n =
     (if blksz dev = 0 then Some (Inl (Panic ''division by zero''), dev)
      else (let d0 = dev\<lparr>bufblkno := pos dev div ucast (blksz dev)\<rparr> in
            if \<not> opened d0 then Some (Inl (Panic ''assertion failed: dev->opened''), d0)
            else if readonly d0 then Some (Inl (Errno EIO), d0)
            else if n = 0 then Some (Inr 0, d0)
            else vioblk_write_loop status_of d0 buf 0 n 0 0))"

text \<open>
  An open device with 512-byte blocks, positioned at byte 1024 (block 2), and a device
  that answers OK for block 0 only.
\<close>

definition blk_dev :: vioblk_device where
  "blk_dev = \<lparr>opened = True, readonly = False, blksz = 512, pos = 1024, bufblkno = 0,
              blkbuf = (\<lambda>_. 0), avail_idx = 0, data_desc_write = False, req_log = [],
              medium = (\<lambda>_ _. 0)\<rparr>"

definition ok_block0 :: "32 word \<Rightarrow> 64 word \<Rightarrow> 8 word" where
  "ok_block0 type sector = (if sector = 0 then 0 else 1)"

section \<open>The file system (kfs.c) on an in-memory device (io.c)\<close>

text \<open>
  The device behind the file system is an \<open>io_lit\<close>, the in-memory device of io.c: a
  byte buffer, its size and a position. The file system reaches it through
  \<open>disk_io->ops->ctl\<close> with \<open>IOCTL_SETPOS\<close>, which is \<open>lit_setpos\<close> (the argument is read
  as a \<open>uint32_t\<close>), and through \<open>disk_io->ops->read\<close>, which is \<open>iolit_read\<close>.
\<close>

record io_lit =
  lit_buf :: "nat \<Rightarrow> 8 word"
  lit_size :: "64 word"
  lit_pos :: "64 word"

definition lit_setpos :: "io_lit \<Rightarrow> 32 word \<Rightarrow> (failure + int) \<times> io_lit" where
  "lit_setpos lit p =
     (if ucast p > lit_size lit then (Inl (Errno EINVAL), lit)
      else (Inr 0, lit\<lparr>lit_pos := ucast p\<rparr>))"

text \<open>\<open>iolit_read\<close> into a buffer that is not null: the bytes are copied to its start.\<close>

definition iolit_read :: "io_lit \<Rightarrow> (nat \<Rightarrow> 8 word) \<Rightarrow> 64 word \<Rightarrow> (failure + int) \<times> (nat \<Rightarrow> 8 word) \<times> io_lit" where
  "iolit_read lit buf bufsz =
     (if bufsz = 0 then (Inl (Errno EINVAL), buf, lit)
      else (let bytes_remaining = lit_size lit - lit_pos lit;
                bytes_to_read = (if bufsz < bytes_remaining then bufsz else bytes_remaining)
            in (Inr (uint bytes_to_read),
                memcpy buf 0 (lit_buf lit) (unat (lit_pos lit)) (unat bytes_to_read),
                lit\<lparr>lit_pos := lit_pos lit + bytes_to_read\<rparr>)))"

text \<open>
  The packed structures of the file system are the 4096 bytes read from the device,
  little-endian: \<open>boot_block_t\<close> has \<open>num_dentry\<close>, \<open>num_inodes\<close> and \<open>num_data\<close> in its
  first twelve bytes, \<open>inode_t\<close> has \<open>byte_len\<close> first and then \<open>data_block_num[1023]\<close>.
\<close>

definition FS_BLKSZ :: "32 word" where "FS_BLKSZ = 4096"
definition MAX_DB_PER_INODE :: "32 word" where "MAX_DB_PER_INODE = 1023"

definition le32 :: "(nat \<Rightarrow> 8 word) \<Rightarrow> nat \<Rightarrow> 32 word" where
  "le32 b off = ucast (b off) OR push_bit 8 (ucast (b (off + 1)))
                OR push_bit 16 (ucast (b (off + 2))) OR push_bit 24 (ucast (b (off + 3)))"

definition num_inodes :: "(nat \<Rightarrow> 8 word) \<Rightarrow> 32 word" where
  "num_inodes bb = le32 bb 4"

definition num_data :: "(nat \<Rightarrow> 8 word) \<Rightarrow> 32 word" where
  "num_data bb = le32 bb 8"

definition byte_len :: "(nat \<Rightarrow> 8 word) \<Rightarrow> 32 word" where
  "byte_len ino = le32 ino 0"

definition data_block_num :: "(nat \<Rightarrow> 8 word) \<Rightarrow> nat \<Rightarrow> 32 word" where
  "data_block_num ino k = le32 ino (4 + 4 * k)"

record file_t =
  file_pos :: "32 word"
  file_size :: "32 word"
  inode_number :: "32 word"
  flags :: "32 word"

text \<open>
  The static variables of kfs.c: the boot block, the one inode buffer, the one data
  block buffer, the table of 32 file handles and the device. The sleep lock \<open>kfs_lock\<close>
  is not part of the model: a call is one uninterrupted step.
\<close>

record kfs =
  boot_block :: "nat \<Rightarrow> 8 word"
  inode :: "nat \<Rightarrow> 8 word"
  data_block :: "nat \<Rightarrow> 8 word"
  file_list :: "nat \<Rightarrow> file_t"
  disk_io :: io_lit

definition inode_offset :: "32 word \<Rightarrow> 32 word" where
  "inode_offset ino_number = FS_BLKSZ + ino_number * FS_BLKSZ"

definition data_block_offset :: "kfs \<Rightarrow> 32 word \<Rightarrow> 32 word" where
  "data_block_offset fs data_block_idx =
     FS_BLKSZ + num_inodes (boot_block fs) * FS_BLKSZ + data_block_idx * FS_BLKSZ"

definition update_inode :: "kfs \<Rightarrow> 32 word \<Rightarrow> (failure + int) \<times> kfs" where
  "update_inode fs ino_number =
     (case lit_setpos (disk_io fs) (inode_offset ino_number) of
        (Inl e, lit) \<Rightarrow> (Inl (Errno EIO), fs\<lparr>disk_io := lit\<rparr>)
      | (Inr r, lit) \<Rightarrow>
          (case iolit_read lit (inode fs) (ucast FS_BLKSZ) of
             (ret, ino, lit') \<Rightarrow>
               if ret \<noteq> Inr (uint FS_BLKSZ)
               then (Inl (Errno EIO), fs\<lparr>inode := ino, disk_io := lit'\<rparr>)
               else (Inr 0, fs\<lparr>inode := ino, disk_io := lit'\<rparr>)))"

definition update_data_block :: "kfs \<Rightarrow> 32 word \<Rightarrow> (failure + int) \<times> kfs" where
  "update_data_block fs data_block_idx =
     (case lit_setpos (disk_io fs) (data_block_offset fs data_block_idx) of
        (Inl e, lit) \<Rightarrow> (Inl (Errno EIO), fs\<lparr>disk_io := lit\<rparr>)
      | (Inr r, lit) \<Rightarrow>
          (case iolit_read lit (data_block fs) (ucast FS_BLKSZ) of
             (ret, blk, lit') \<Rightarrow>
               if ret \<noteq> Inr (uint FS_BLKSZ)
               then (Inl (Errno EIO), fs\<lparr>data_block := blk, disk_io := lit'\<rparr>)
               else (Inr 0, fs\<lparr>data_block := blk, disk_io := lit'\<rparr>)))"

text \<open>Each round of the loop of \<open>fs_read\<close> copies at least one byte.\<close>

lemma fs_read_copy_pos:
  fixes bo :: "32 word"
  assumes "0 < left"
  shows "0 < unat (if unat (FS_BLKSZ - bo mod FS_BLKSZ) < left
                   then FS_BLKSZ - bo mod FS_BLKSZ else of_nat left)"
proof -
  have lt: "unat (bo mod FS_BLKSZ) < 4096"
    by (simp add: FS_BLKSZ_def unat_mod)
  have bib: "unat (FS_BLKSZ - bo mod FS_BLKSZ) = 4096 - unat (bo mod FS_BLKSZ)"
    using lt by (simp add: FS_BLKSZ_def unat_sub word_le_nat_alt)
  show ?thesis
  proof (cases "unat (FS_BLKSZ - bo mod FS_BLKSZ) < left")
    case True
    with bib lt show ?thesis by simp
  next
    case False
    with bib lt have "left \<le> 4096" by simp
    then have "unat (of_nat left :: 32 word) = left"
      by (simp add: unat_of_nat)
    with False assms show ?thesis by simp
  qed
qed

text \<open>
  The loop of \<open>fs_read\<close>. \<open>fd\<close> is the index of the handle in \<open>file_list\<close>; the counters
  \<open>read_bytes\<close> and \<open>bytes_to_read\<close> are \<open>unsigned long\<close> and never exceed \<open>2^32\<close>, so
  they are natural numbers; \<open>byte_offset\<close>, \<open>block_idx\<close>, \<open>block_offset\<close>,
  \<open>bytes_in_block\<close> and \<open>bytes_to_copy\<close> are \<open>uint32_t\<close>.
\<close>

function fs_read_loop ::
  "kfs \<Rightarrow> nat \<Rightarrow> 32 word \<Rightarrow> nat \<Rightarrow> (nat \<Rightarrow> 8 word) \<Rightarrow> nat \<Rightarrow> (failure + int) \<times> (nat \<Rightarrow> 8 word) \<times> kfs" where
  "fs_read_loop fs fd allocated_blocks bytes_to_read read_buf read_bytes =
     (if read_bytes < bytes_to_read then
        (let byte_offset = file_pos (file_list fs fd) + of_nat read_bytes;
             block_idx = byte_offset div FS_BLKSZ;
             block_offset = byte_offset mod FS_BLKSZ
         in if block_idx \<ge> allocated_blocks \<or> block_idx \<ge> MAX_DB_PER_INODE
            then (Inl (Errno EIO), read_buf, fs)
            else (let data_block_idx = data_block_num (inode fs) (unat block_idx)
                  in if data_block_idx \<ge> num_data (boot_block fs)
                     then (Inl (Errno EIO), read_buf, fs)
                     else (case update_data_block fs data_block_idx of
                             (Inl e, fs1) \<Rightarrow> (Inl (Errno EIO), read_buf, fs1)
                           | (Inr r, fs1) \<Rightarrow>
                               (let bytes_in_block = FS_BLKSZ - block_offset;
                                    bytes_left_to_read = bytes_to_read - read_bytes;
                                    bytes_to_copy = (if unat bytes_in_block < bytes_left_to_read
                                                     then bytes_in_block
                                                     else of_nat bytes_left_to_read)
                                in fs_read_loop fs1 fd allocated_blocks bytes_to_read
                                     (memcpy read_buf read_bytes (data_block fs1) (unat block_offset)
                                             (unat bytes_to_copy))
                                     (read_bytes + unat bytes_to_copy)))))
      else (Inr (int read_bytes), read_buf, fs))"
  by pat_completeness auto
termination
  apply (relation "measure (\<lambda>(fs, fd, ab, btr, buf, rb). btr - rb)")
   apply simp
  subgoal for fs fd ab btr buf rb
    using fs_read_copy_pos [of "btr - rb" "file_pos (file_list fs fd) + of_nat rb"]
    by (auto split: if_splits)
  done

declare fs_read_loop.simps [simp del]

text \<open>
  \<open>fs_read(io, buf, n)\<close>. \<open>io\<close> is \<open>None\<close> for a null pointer and \<open>Some i\<close> for the
  address of \<open>file_list[i].io\<close>, which \<open>get_fd_by_io\<close> casts back to the handle; \<open>buf\<close>
  is \<open>None\<close> for a null pointer.
\<close>

definition fs_read ::
  "kfs \<Rightarrow> nat option \<Rightarrow> (nat \<Rightarrow> 8 word) option \<Rightarrow> 64 word
     \<Rightarrow> (failure + int) \<times> (nat \<Rightarrow> 8 word) option \<times> kfs" where
  "fs_read fs io buf n =
     (case (io, buf) of
        (None, _) \<Rightarrow> (Inl (Errno EINVAL), buf, fs)
      | (_, None) \<Rightarrow> (Inl (Errno EINVAL), buf, fs)
      | (Some fd, Some read_buf) \<Rightarrow>
          if n = 0 then (Inr 0, buf, fs)
          else if file_pos (file_list fs fd) \<ge> file_size (file_list fs fd) then (Inr 0, buf, fs)
          else if inode_number (file_list fs fd) \<ge> num_inodes (boot_block fs)
          then (Inl (Errno EIO), buf, fs)
          else (case update_inode fs (inode_number (file_list fs fd)) of
                  (Inl e, fs1) \<Rightarrow> (Inl (Errno EIO), buf, fs1)
                | (Inr r, fs1) \<Rightarrow>
                    (let allocated_blocks = (byte_len (inode fs1) + FS_BLKSZ - 1) div FS_BLKSZ;
                         bytes_remaining = file_size (file_list fs1 fd) - file_pos (file_list fs1 fd);
                         bytes_to_read = (if n < ucast bytes_remaining then unat n else unat bytes_remaining)
                     in case fs_read_loop fs1 fd allocated_blocks bytes_to_read read_buf 0 of
                          (Inl e, b, fs2) \<Rightarrow> (Inl e, Some b, fs2)
                        | (Inr read_bytes, b, fs2) \<Rightarrow>
                            (Inr read_bytes, Some b,
                             fs2\<lparr>file_list := (file_list fs2)(fd :=
                                   (file_list fs2 fd)\<lparr>file_pos := file_pos (file_list fs2 fd)
                                                                    + word_of_int read_bytes\<rparr>)\<rparr>))))"



text \<open>
  A small image on an in-memory device of three blocks: a boot block with one inode and
  one data block, the inode of a file of 13 bytes whose first data block is block 0,
  and that data block with the bytes of \<open>Hello, World!\<close>. In \<open>hello_fs\<close> the file is open
  in handle 0 at position 0. \<open>stray_fs\<close> is the same but for the inode on the device,
  which names data block 5 where the image has only one.
\<close>

definition hello_disk :: "nat \<Rightarrow> 8 word" where
  "hello_disk = (\<lambda>_. 0)(4 := 1, 8 := 1, 4096 := 13,
       8192 := 72, 8193 := 101, 8194 := 108, 8195 := 108, 8196 := 111, 8197 := 44, 8198 := 32,
       8199 := 87, 8200 := 111, 8201 := 114, 8202 := 108, 8203 := 100, 8204 := 33)"

definition hello_fs :: kfs where
  "hello_fs = \<lparr>boot_block = (\<lambda>_. 0)(4 := 1, 8 := 1), inode = (\<lambda>_. 0), data_block = (\<lambda>_. 0),
      file_list = (\<lambda>_. \<lparr>file_pos = 0, file_size = 0, inode_number = 0, flags = 0\<rparr>)
                    (0 := \<lparr>file_pos = 0, file_size = 13, inode_number = 0, flags = 1\<rparr>),
      disk_io = \<lparr>lit_buf = hello_disk, lit_size = 12288, lit_pos = 0\<rparr>\<rparr>"

definition stray_fs :: kfs where
  "stray_fs = hello_fs\<lparr>disk_io := \<lparr>lit_buf = hello_disk(4100 := 5), lit_size = 12288, lit_pos = 0\<rparr>\<rparr>"





section \<open>Properties of the memory manager\<close>

subsection \<open>Auxiliary facts\<close>

lemmas eval_defs = active_space_root_def active_space_mtag_def mtag_to_root_def pte_addr_def
  VPN2_def VPN1_def VPN0_def pte_flags_def pte_ppn_def pagenum_to_pageptr_def
  pageptr_to_pagenum_def PAGE_ORDER_def PAGE_SIZE_def PTE_PER_LEVEL_def
  PTE_V_def PTE_R_def PTE_W_def PTE_X_def PTE_U_def PTE_A_def PTE_D_def PTE_G_def
  mask_eq_exp_minus_1 set_pte_flags_def set_pte_ppn_def memory_alloc_page_def

lemma pte_flags_set_flags: "pte_flags (set_pte_flags e f) = f"
  unfolding pte_flags_def set_pte_flags_def
  by (rule bit_word_eqI) (auto simp: bit_simps)

lemma pte_ppn_set_flags: "pte_ppn (set_pte_flags e f) = pte_ppn e"
  unfolding pte_ppn_def set_pte_flags_def
  by (rule bit_word_eqI) (auto simp: bit_simps dest: bit_imp_le_length)

lemma pte_ppn_set_ppn: "pte_ppn (set_pte_ppn e p) = p AND mask 44"
  unfolding pte_ppn_def set_pte_ppn_def
  by (rule bit_word_eqI) (auto simp: bit_simps)

lemma memory_alloc_page_Inr:
  "memory_alloc_page s = Inr (p, s') \<Longrightarrow>
     p = free_list s \<and> p \<noteq> 0 \<and> mem s' = mem s \<and> free_list s' = mem s p \<and> satp s' = satp s"
  by (auto simp: memory_alloc_page_def split: if_splits)

lemma walk_pt_nocreate_state:
  "walk_pt s root va False = Inr (p, s') \<Longrightarrow> s' = s"
  by (auto simp: walk_pt_def Let_def split: if_splits)

lemma walk_pt_nocreate_total:
  "\<exists>p. walk_pt s root va False = Inr (p, s)"
  by (auto simp: walk_pt_def Let_def)

lemma walk_pt_cells:
  assumes "walk_pt s root va c = Inr (pt0, s1)"
  shows "\<exists>a1. \<forall>a. a \<noteq> pte_addr root (VPN2 va) \<and> a \<noteq> a1 \<longrightarrow> mem s1 a = mem s a"
  using assms
  by (auto simp: walk_pt_def Let_def memory_alloc_page_def
           split: if_splits sum.splits prod.splits option.splits)

lemma fold_keep:
  "(\<And>x. x \<in> set xs \<Longrightarrow> f x (Some s) = Some s) \<Longrightarrow> fold f xs (Some s) = Some s"
  by (induction xs) auto

lemma walk_and_free_user_no_user_entry:
  assumes "\<And>i. i < PTE_PER_LEVEL \<Longrightarrow> pte_flags (mem s (pte_addr root (of_nat i))) AND PTE_U = 0"
  shows "walk_and_free_user (Suc d) root s = Some s"
  unfolding walk_and_free_user.simps
  by (rule fold_keep) (simp add: assms Let_def)

lemma demo_fault:
  "memory_handle_page_fault 0xC0000000 0xD0000000 demo_state 0xC0000123 = Inr faulted_state"
  by (simp add: memory_handle_page_fault_def memory_alloc_and_map_page_def walk_pt_def
      demo_state_def faulted_state_def eval_defs Let_def)

lemma root_cell_unat:
  "i < 512 \<Longrightarrow> unat (0x80001000 + 8 * (of_nat i :: 64 word)) = 0x80001000 + 8 * i"
  by (simp add: unat_word_ariths unat_of_nat)

lemma root_cell_neq:
  assumes "i < 512"
  shows "(0x80001000 + 8 * (of_nat i :: 64 word)) \<noteq> 0x80005000"
proof
  assume "0x80001000 + 8 * (of_nat i :: 64 word) = 0x80005000"
  then have "unat (0x80001000 + 8 * (of_nat i :: 64 word)) = unat (0x80005000 :: 64 word)"
    by simp
  with assms show False by (simp add: root_cell_unat)
qed

lemma faulted_root_no_user:
  "i < PTE_PER_LEVEL \<Longrightarrow>
   pte_flags (mem faulted_state (pte_addr (active_space_root faulted_state) (of_nat i))) AND PTE_U = 0"
  by (simp add: faulted_state_def eval_defs root_cell_neq)

lemma faulted_unmap: "memory_unmap_and_free_user (Suc d) faulted_state = Some faulted_state"
  unfolding memory_unmap_and_free_user_def
  by (rule walk_and_free_user_no_user_entry) (rule faulted_root_no_user)

lemma faulted_reclaim: "memory_space_reclaim (Suc d) faulted_state = Some faulted_state"
  by (simp add: memory_space_reclaim_def faulted_unmap memory_space_switch_def)
     (simp add: faulted_state_def)

lemma faulted_leaf: "user_leaf_at faulted_state 0xC0000000"
  by (simp add: user_leaf_at_def walk_pt_def faulted_state_def eval_defs Let_def)

lemma faulted_mapped: "mapped_to_level0 faulted_state 0x80001000 0xC0000000"
  by (simp add: mapped_to_level0_def faulted_state_def eval_defs)

lemma faulted_level0: "level0_table faulted_state 0x80001000 0xC0000000 = 0x80005000"
  by (simp add: level0_table_def faulted_state_def eval_defs)

subsection \<open>Walk determinism\<close>

text \<open>
  C8. For a virtual address already mapped down to level 0, \<open>walk_pt\<close> with
  \<open>create = 0\<close> and with \<open>create = 1\<close> return the same level-0 table pointer, and the call
  with \<open>create = 0\<close> returns the state it was given: no page leaves the free list and no
  cell of memory, hence no page-table entry, changes.
\<close>

theorem walk_pt_determinism:
  assumes "mapped_to_level0 s root va"
  shows "walk_pt s root va False = Inr (level0_table s root va, s)
       \<and> walk_pt s root va True = Inr (level0_table s root va, s)"
  using assms by (simp add: walk_pt_def mapped_to_level0_def level0_table_def Let_def)

theorem walk_pt_determinism_witness:
  "mapped_to_level0 faulted_state 0x80001000 0xC0000000
   \<and> walk_pt faulted_state 0x80001000 0xC0000000 False = Inr (0x80005000, faulted_state)
   \<and> walk_pt faulted_state 0x80001000 0xC0000000 True = Inr (0x80005000, faulted_state)"
  using walk_pt_determinism [OF faulted_mapped] faulted_mapped faulted_level0 by simp

subsection \<open>User-pointer validation\<close>

text \<open>
  C1 (the code departs from it). In \<open>faulted_state\<close> the page at \<open>0xC0001000\<close> has a
  level-0 table but its entry there is empty, so the page is not mapped. For this page,
  4096 bytes and no required flag, \<open>memory_validate_vptr_len\<close> returns 0: it tests the
  first entry of the level-0 table, which maps \<open>0xC0000000\<close>, and tests it with a
  boolean \<open>&&\<close>, which only asks whether the flag byte is non-zero.
\<close>

theorem memory_validate_vptr_len_accepts_unmapped:
  "memory_validate_vptr_len faulted_state 0xC0001000 4096 0 = Some (Inr 0)
   \<and> mapped_to_level0 faulted_state (active_space_root faulted_state) 0xC0001000
   \<and> pte_flags (leaf_entry faulted_state 0xC0001000) AND PTE_V = 0"
proof -
  have "memory_validate_vptr_len faulted_state 0xC0001000 4096 0
        = memory_validate_vptr_len faulted_state 0xC0002000 0 0"
    by (subst memory_validate_vptr_len.simps)
       (simp add: walk_pt_def faulted_state_def eval_defs c_land_def Let_def)
  also have "\<dots> = Some (Inr 0)"
    by (subst memory_validate_vptr_len.simps) simp
  finally have "memory_validate_vptr_len faulted_state 0xC0001000 4096 0 = Some (Inr 0)" .
  moreover have "mapped_to_level0 faulted_state (active_space_root faulted_state) 0xC0001000"
    by (simp add: mapped_to_level0_def faulted_state_def eval_defs)
  moreover have "pte_flags (leaf_entry faulted_state 0xC0001000) AND PTE_V = 0"
    by (simp add: leaf_entry_def level0_table_def faulted_state_def eval_defs)
  ultimately show ?thesis by simp
qed

subsection \<open>Reclaiming a space\<close>

text \<open>
  C2 (the code departs from it). \<open>faulted_state\<close> is reached from \<open>demo_state\<close> by one
  demand-paging fault in the main space. No entry of its root table has the U bit (the
  walker links inner tables with V alone), so \<open>walk_and_free_user\<close> frees nothing and
  clears nothing, \<open>memory_space_reclaim\<close> returns the very same state at any depth bound,
  and the user leaf for \<open>0xC0000000\<close> is still reachable from the root of the active space.
\<close>

theorem memory_space_reclaim_keeps_user_leaf:
  "memory_handle_page_fault 0xC0000000 0xD0000000 demo_state 0xC0000123 = Inr faulted_state
   \<and> memory_space_reclaim (Suc d) faulted_state = Some faulted_state
   \<and> user_leaf_at faulted_state 0xC0000000"
  using demo_fault faulted_reclaim faulted_leaf by simp

subsection \<open>Frames linked by demand paging\<close>

text \<open>
  C7 as stated fails: the fault at \<open>0xC0000123\<close> in \<open>demo_state\<close> maps the frame
  \<open>0x80006000\<close>, whose first cell holds the free-list link and whose second cell holds
  the data left there; the frame is not zero when the leaf becomes visible.
\<close>

theorem demand_paging_frame_not_zero:
  "memory_handle_page_fault 0xC0000000 0xD0000000 demo_state 0xC0000123 = Inr faulted_state
   \<and> user_leaf_at faulted_state 0xC0000000
   \<and> leaf_frame faulted_state 0xC0000000 = 0x80006000
   \<and> mem faulted_state 0x80006008 = 0xDEADBEEF
   \<and> \<not> frame_zero faulted_state (leaf_frame faulted_state 0xC0000000)"
proof -
  have f: "leaf_frame faulted_state 0xC0000000 = 0x80006000"
    by (simp add: leaf_frame_def leaf_entry_def level0_table_def faulted_state_def eval_defs)
  have m: "mem faulted_state 0x80006008 = 0xDEADBEEF"
    by (simp add: faulted_state_def)
  have "\<not> frame_zero faulted_state 0x80006000"
  proof
    assume "frame_zero faulted_state 0x80006000"
    then have "\<forall>i \<in> set [0..<512]. mem faulted_state (0x80006000 + 8 * of_nat i) = 0"
      by (simp add: frame_zero_def list_all_iff)
    then have "mem faulted_state (0x80006000 + 8 * of_nat (1::nat)) = 0"
      by (rule bspec) simp
    with m show False by simp
  qed
  with f m demo_fault faulted_leaf show ?thesis by simp
qed

text \<open>
  C7, amended. A handled page fault links the frame as the pool held it. The walk
  (with creation) changes at most the level-2 entry of the address and one more cell;
  the frame is the head of the pool after the walk; from there on the only cell written
  is the leaf, which receives the number of the frame and at least the flags
  \<open>V | R | W | U | A | D\<close>. Nothing writes zeros to the frame.
\<close>

theorem demand_paging_frame_as_pooled:
  assumes "memory_handle_page_fault ustart uend s vptr = Inr s'"
  shows "\<exists>pt0 s1 a1.
           walk_pt s (active_space_root s) (vptr AND NOT (PAGE_SIZE - 1)) True = Inr (pt0, s1)
         \<and> (\<forall>a. a \<noteq> pte_addr (active_space_root s) (VPN2 (vptr AND NOT (PAGE_SIZE - 1))) \<and> a \<noteq> a1
                 \<longrightarrow> mem s1 a = mem s a)
         \<and> free_list s1 \<noteq> 0
         \<and> (\<forall>a. a \<noteq> pte_addr pt0 (VPN0 (vptr AND NOT (PAGE_SIZE - 1))) \<longrightarrow> mem s' a = mem s1 a)
         \<and> pte_ppn (mem s' (pte_addr pt0 (VPN0 (vptr AND NOT (PAGE_SIZE - 1)))))
             = pageptr_to_pagenum (free_list s1) AND mask 44
         \<and> pte_flags (mem s' (pte_addr pt0 (VPN0 (vptr AND NOT (PAGE_SIZE - 1)))))
             AND (PTE_V OR PTE_R OR PTE_W OR PTE_U OR PTE_A OR PTE_D)
             = PTE_V OR PTE_R OR PTE_W OR PTE_U OR PTE_A OR PTE_D"
proof -
  define va where "va = vptr AND NOT (PAGE_SIZE - 1)"
  from assms obtain p where
    am: "memory_alloc_and_map_page s va (PTE_R OR PTE_W OR PTE_U) = Inr (p, s')"
    by (auto simp: memory_handle_page_fault_def Let_def va_def split: if_splits sum.splits)
  then obtain pt0 s1 where w: "walk_pt s (active_space_root s) va True = Inr (pt0, s1)"
    by (auto simp: memory_alloc_and_map_page_def split: sum.splits)
  with am obtain page s2 where al: "memory_alloc_page s1 = Inr (page, s2)" and nz: "pt0 \<noteq> 0"
    by (auto simp: memory_alloc_and_map_page_def split: sum.splits if_splits)
  from memory_alloc_page_Inr [OF al]
  have pg: "page = free_list s1" "free_list s1 \<noteq> 0" "mem s2 = mem s1" by auto
  define leaf where "leaf = pte_addr pt0 (VPN0 va)"
  from am w al nz have s': "mem s' = (mem s1)(leaf :=
        set_pte_flags (set_pte_ppn (mem s1 leaf) (pageptr_to_pagenum page))
          (pte_flags (set_pte_ppn (mem s1 leaf) (pageptr_to_pagenum page))
             OR (PTE_V OR (PTE_R OR PTE_W OR PTE_U) OR PTE_A OR PTE_D)))"
    using pg(3) by (clarsimp simp: memory_alloc_and_map_page_def Let_def leaf_def)
  from walk_pt_cells [OF w] obtain a1 where
    c: "\<forall>a. a \<noteq> pte_addr (active_space_root s) (VPN2 va) \<and> a \<noteq> a1 \<longrightarrow> mem s1 a = mem s a"
    by blast
  have o: "\<forall>a. a \<noteq> leaf \<longrightarrow> mem s' a = mem s1 a" by (simp add: s')
  have n: "pte_ppn (mem s' leaf) = pageptr_to_pagenum (free_list s1) AND mask 44"
    by (simp add: s' pte_ppn_set_flags pte_ppn_set_ppn pg(1))
  have f: "pte_flags (mem s' leaf) AND (PTE_V OR PTE_R OR PTE_W OR PTE_U OR PTE_A OR PTE_D)
             = PTE_V OR PTE_R OR PTE_W OR PTE_U OR PTE_A OR PTE_D"
    unfolding s' by (simp add: pte_flags_set_flags) (rule bit_word_eqI, auto simp: bit_simps)
  show ?thesis
    unfolding va_def [symmetric]
    by (rule exI [of _ pt0], rule exI [of _ s1], rule exI [of _ a1])
       (intro conjI w c pg(2) o [unfolded leaf_def] n [unfolded leaf_def] f [unfolded leaf_def])
qed

theorem demand_paging_frame_as_pooled_witness:
  "memory_handle_page_fault 0xC0000000 0xD0000000 demo_state 0xC0000123 = Inr faulted_state
   \<and> (\<exists>pt0 s1 a1.
           walk_pt demo_state (active_space_root demo_state) (0xC0000123 AND NOT (PAGE_SIZE - 1)) True
             = Inr (pt0, s1)
         \<and> (\<forall>a. a \<noteq> pte_addr (active_space_root demo_state) (VPN2 (0xC0000123 AND NOT (PAGE_SIZE - 1)))
                  \<and> a \<noteq> a1
                 \<longrightarrow> mem s1 a = mem demo_state a)
         \<and> free_list s1 \<noteq> 0
         \<and> (\<forall>a. a \<noteq> pte_addr pt0 (VPN0 (0xC0000123 AND NOT (PAGE_SIZE - 1)))
                 \<longrightarrow> mem faulted_state a = mem s1 a)
         \<and> pte_ppn (mem faulted_state (pte_addr pt0 (VPN0 (0xC0000123 AND NOT (PAGE_SIZE - 1)))))
             = pageptr_to_pagenum (free_list s1) AND mask 44
         \<and> pte_flags (mem faulted_state (pte_addr pt0 (VPN0 (0xC0000123 AND NOT (PAGE_SIZE - 1)))))
             AND (PTE_V OR PTE_R OR PTE_W OR PTE_U OR PTE_A OR PTE_D)
             = PTE_V OR PTE_R OR PTE_W OR PTE_U OR PTE_A OR PTE_D)"
  by (rule conjI [OF demo_fault demand_paging_frame_as_pooled [OF demo_fault]])

section \<open>Properties of the process layer\<close>

subsection \<open>Auxiliary facts\<close>

lemma upt16: "[0..<16] = [0,1,2,3,4,5,6,7,8,9,10,11,12,13,14,15]"
  by code_simp

lemma exit_step_refcnt: "refcnt (exit_step proc i k) = refcnt k"
  by (simp add: exit_step_def set_iotab_def ops_close_def split: option.splits)

lemma exit_step_iotab:
  "iotab (procs (exit_step proc i k) q) j = (if q = proc \<and> j = i then None else iotab (procs k q) j)"
  by (simp add: exit_step_def set_iotab_def ops_close_def split: option.splits)

lemma exit_step_close_calls:
  "close_calls (exit_step proc i k)
     = close_calls k @ (case iotab (procs k proc) i of None \<Rightarrow> [] | Some io \<Rightarrow> [io])"
  by (simp add: exit_step_def set_iotab_def ops_close_def split: option.splits)

lemma exit_fold_refcnt: "refcnt (fold (exit_step proc) xs k) = refcnt k"
  by (induction xs arbitrary: k) (simp_all add: exit_step_refcnt)

lemma exit_fold_iotab:
  "iotab (procs (fold (exit_step proc) xs k) q) j
     = (if q = proc \<and> j \<in> set xs then None else iotab (procs k q) j)"
  by (induction xs arbitrary: k) (auto simp: exit_step_iotab)

lemma exit_fold_close_calls:
  "distinct xs \<Longrightarrow>
   close_calls (fold (exit_step proc) xs k)
     = close_calls k @ concat (map (\<lambda>i. case iotab (procs k proc) i of None \<Rightarrow> [] | Some io \<Rightarrow> [io]) xs)"
proof (induction xs arbitrary: k)
  case Nil
  then show ?case by simp
next
  case (Cons i xs)
  have "concat (map (\<lambda>j. case iotab (procs (exit_step proc i k) proc) j of None \<Rightarrow> [] | Some io \<Rightarrow> [io]) xs)
        = concat (map (\<lambda>j. case iotab (procs k proc) j of None \<Rightarrow> [] | Some io \<Rightarrow> [io]) xs)"
    using Cons.prems
    by (intro arg_cong [where f = concat] map_cong refl) (auto simp: exit_step_iotab)
  with Cons show ?case
    by (simp add: exit_step_close_calls)
qed

text \<open>
  What \<open>process_exit\<close> does to the handles, whatever the table holds: no reference count
  changes, and the underlying close is called once for every slot that is not null, in
  the order of the slots.
\<close>

lemma process_exit_result:
  assumes "process_exit d ms k = Some (ms', k')"
  shows "refcnt k' = refcnt k"
    and "close_calls k' = close_calls k @
           concat (map (\<lambda>i. case iotab (procs k (curproc k)) i of None \<Rightarrow> [] | Some io \<Rightarrow> [io])
                       [0..<PROCESS_IOMAX])"
    and "iotab (procs k' q) j = (if q = curproc k \<and> j < PROCESS_IOMAX then None else iotab (procs k q) j)"
  using assms
  by (auto simp: process_exit_def Let_def current_process_def
                 exit_fold_refcnt exit_fold_close_calls exit_fold_iotab
           split: option.splits)

lemma process_exit_returns:
  assumes "memory_unmap_and_free_user d ms = Some ms1" and "memory_space_reclaim d ms1 = Some ms2"
  shows "\<exists>k'. process_exit d ms k = Some (ms2, k')"
  using assms by (simp add: process_exit_def Let_def)

lemma fork_step_refcnt:
  "refcnt (fork_step parent child i k) io
     = refcnt k io + (if iotab (procs k parent) i = Some io then 1 else 0)"
  by (simp add: fork_step_def set_iotab_def ioref_def Let_def split: option.splits)

lemma fork_step_iotab:
  "iotab (procs (fork_step parent child i k) q) j
     = (if q = child \<and> j = i then iotab (procs k parent) i else iotab (procs k q) j)"
  by (simp add: fork_step_def set_iotab_def ioref_def Let_def split: option.splits)

lemma fork_step_other:
  "proctab (fork_step parent child i k) = proctab k"
  "curproc (fork_step parent child i k) = curproc k"
  "close_calls (fork_step parent child i k) = close_calls k"
  "proc_id (procs (fork_step parent child i k) q) = proc_id (procs k q)"
  by (simp_all add: fork_step_def set_iotab_def ioref_def Let_def split: option.splits)

lemma fork_fold_other:
  "proctab (fold (fork_step parent child) xs k) = proctab k"
  "curproc (fold (fork_step parent child) xs k) = curproc k"
  "close_calls (fold (fork_step parent child) xs k) = close_calls k"
  "proc_id (procs (fold (fork_step parent child) xs k) q) = proc_id (procs k q)"
  by (induction xs arbitrary: k; simp add: fork_step_other)+

lemma fork_fold_iotab:
  "parent \<noteq> child \<Longrightarrow>
   iotab (procs (fold (fork_step parent child) xs k) q) j
     = (if q = child \<and> j \<in> set xs then iotab (procs k parent) j else iotab (procs k q) j)"
  by (induction xs arbitrary: k) (auto simp: fork_step_iotab)

lemma fork_fold_refcnt:
  "parent \<noteq> child \<Longrightarrow>
   refcnt (fold (fork_step parent child) xs k) io
     = refcnt k io + int (length (filter (\<lambda>i. iotab (procs k parent) i = Some io) xs))"
proof (induction xs arbitrary: k)
  case Nil
  then show ?case by simp
next
  case (Cons i xs)
  have "filter (\<lambda>j. iotab (procs (fork_step parent child i k) parent) j = Some io) xs
        = filter (\<lambda>j. iotab (procs k parent) j = Some io) xs"
    using Cons.prems by (simp add: fork_step_iotab)
  with Cons show ?case by (simp add: fork_step_refcnt)
qed

lemma parent_fork:
  "\<exists>k1. process_fork 200 0x8000000000080009 parent_state 0 = Inr (Some 200, k1)
       \<and> refcnt k1 7 = 2 \<and> iotab (procs k1 200) = (\<lambda>_. None)(0 := Some 7)
       \<and> iotab (procs k1 100) 0 = Some 7 \<and> close_calls k1 = []"
proof -
  have f: "find (\<lambda>i. proctab parent_state i = None) [0..<NPROC] = Some 1"
    by (simp add: parent_state_def NPROC_def upt16)
  have p: "proctab parent_state 0 = Some 100"
    by (simp add: parent_state_def)
  show ?thesis
    by (simp add: process_fork_def f p Let_def fork_fold_refcnt fork_fold_iotab fork_fold_other
                  fun_eq_iff)
       (simp add: parent_state_def PROCESS_IOMAX_def upt16 null_process_def)
qed

subsection \<open>Closing descriptors at exit\<close>

text \<open>
  C3 (the code departs from it). Process 0 of \<open>parent_state\<close> forks; the child shares
  the handle 7, whose count becomes 2. The child then exits: \<open>process_exit\<close> calls the
  underlying close of the handle although its count is 2, and leaves the count at 2;
  the parent's slot 0 still names the handle.
\<close>

theorem process_exit_closes_shared_handle:
  "\<exists>k1 ms' k2.
       process_fork 200 0x8000000000080009 parent_state 0 = Inr (Some 200, k1)
     \<and> refcnt k1 7 = 2
     \<and> process_exit 1 faulted_state (k1\<lparr>curproc := 200\<rparr>) = Some (ms', k2)
     \<and> close_calls k2 = [7]
     \<and> refcnt k2 7 = 2
     \<and> iotab (procs k2 100) 0 = Some 7"
proof -
  from parent_fork obtain k1 where
    k1: "process_fork 200 0x8000000000080009 parent_state 0 = Inr (Some 200, k1)"
        "refcnt k1 7 = 2" "iotab (procs k1 200) = (\<lambda>_. None)(0 := Some 7)"
        "iotab (procs k1 100) 0 = Some 7" "close_calls k1 = []"
    by blast
  from process_exit_returns [OF faulted_unmap [of 0] faulted_reclaim [of 0]]
  obtain k2 where e: "process_exit 1 faulted_state (k1\<lparr>curproc := 200\<rparr>) = Some (faulted_state, k2)"
    by auto
  have c: "close_calls k2 = [7]"
    using process_exit_result(2) [OF e] k1(3,5) by (simp add: PROCESS_IOMAX_def upt16)
  have r: "refcnt k2 7 = 2"
    using process_exit_result(1) [OF e] k1(2) by simp
  have i: "iotab (procs k2 100) 0 = Some 7"
    using process_exit_result(3) [OF e, of 100 0] k1(4) by simp
  from k1(1,2) e c r i show ?thesis by blast
qed

subsection \<open>The reference count after an open\<close>

text \<open>
  C10. When \<open>sysdevopen\<close> or \<open>sysfsopen\<close> succeeds with descriptor \<open>new_fd\<close>, the slot
  \<open>new_fd\<close> of the current process holds a handle whose reference count is exactly 1,
  whatever the count was before and whichever other slots name the same handle.
\<close>

theorem open_sets_refcnt_one:
  "(sysdevopen device_open k fd name instno = (Inr new_fd, k') \<longrightarrow>
      (\<exists>io. iotab (procs k' (current_process k')) (nat new_fd) = Some io \<and> refcnt k' io = 1))
   \<and> (sysfsopen fs_open k fd name = (Inr new_fd, k') \<longrightarrow>
      (\<exists>io. iotab (procs k' (current_process k')) (nat new_fd) = Some io \<and> refcnt k' io = 1))"
  by (auto simp: sysdevopen_def sysfsopen_def Let_def set_iotab_def current_process_def
           split: option.splits sum.splits if_splits prod.splits)

theorem open_sets_refcnt_one_witness:
  "iotab (procs (parent_state\<lparr>refcnt := (\<lambda>_. 0)(7 := 2)\<rparr>) 100) 0 = Some 7
   \<and> (\<exists>k'. sysdevopen (\<lambda>_ _. Inr 7) (parent_state\<lparr>refcnt := (\<lambda>_. 0)(7 := 2)\<rparr>) (- 1) (Some ''blk'') 0
              = (Inr 1, k')
          \<and> iotab (procs k' (current_process k')) (nat 1) = Some 7 \<and> refcnt k' 7 = 1)
   \<and> (\<exists>k'. sysfsopen (\<lambda>_. Inr 7) (parent_state\<lparr>refcnt := (\<lambda>_. 0)(7 := 2)\<rparr>) (- 1) (Some ''trek'')
              = (Inr 1, k')
          \<and> iotab (procs k' (current_process k')) (nat 1) = Some 7 \<and> refcnt k' 7 = 1)"
proof -
  define k where "k = parent_state\<lparr>refcnt := (\<lambda>_. 0)(7 := 2)\<rparr>"
  have f: "find (\<lambda>i. iotab (procs k (curproc k)) i = None) [0..<PROCESS_IOMAX] = Some 1"
    by (simp add: k_def parent_state_def PROCESS_IOMAX_def upt16)
  obtain kd where d: "sysdevopen (\<lambda>_ _. Inr 7) k (- 1) (Some ''blk'') 0 = (Inr 1, kd)"
    by (simp add: sysdevopen_def current_process_def f Let_def)
  obtain kf where s: "sysfsopen (\<lambda>_. Inr 7) k (- 1) (Some ''trek'') = (Inr 1, kf)"
    by (simp add: sysfsopen_def current_process_def f Let_def)
  have dio: "iotab (procs kd (current_process kd)) (nat 1) = Some 7"
    using d by (auto simp: sysdevopen_def current_process_def f Let_def set_iotab_def)
  have sio: "iotab (procs kf (current_process kf)) (nat 1) = Some 7"
    using s by (auto simp: sysfsopen_def current_process_def f Let_def set_iotab_def)
  from open_sets_refcnt_one [where device_open = "\<lambda>_ _. Inr 7" and k = k and fd = "- 1"
        and name = "Some ''blk''" and instno = 0 and new_fd = 1 and k' = kd] d dio
  have rd: "refcnt kd 7 = 1" by auto
  from open_sets_refcnt_one [where fs_open = "\<lambda>_. Inr 7" and k = k and fd = "- 1"
        and name = "Some ''trek''" and new_fd = 1 and k' = kf] s sio
  have rf: "refcnt kf 7 = 1" by auto
  have "iotab (procs k 100) 0 = Some 7"
    by (simp add: k_def parent_state_def)
  with d dio rd s sio rf show ?thesis unfolding k_def by blast
qed

subsection \<open>The message-output system call\<close>

text \<open>
  C9 (the code departs from it). \<open>sysmsgout\<close> never returns the bad-format error,
  whatever the pointer. The address \<open>0x80001000\<close>, the root page table of the kernel, is
  not a user page of \<open>faulted_state\<close>, yet a message read from there is printed and the
  call returns 0.
\<close>

theorem sysmsgout_never_bad_format:
  "fst (sysmsgout read_str thr_name tid console msg) \<noteq> Inl (Errno EBADFMT)
   \<and> \<not> user_leaf_at faulted_state 0x80001000
   \<and> sysmsgout (\<lambda>_. Some ''kernel data'') ''init'' 0 [] 0x80001000
       = (Inr 0, [(''init'', 0, ''kernel data'')])"
proof -
  have "\<not> user_leaf_at faulted_state 0x80001000"
    by (simp add: user_leaf_at_def walk_pt_def faulted_state_def eval_defs Let_def)
  then show ?thesis
    by (simp add: sysmsgout_def split: option.splits)
qed

section \<open>Properties of fork\<close>

subsection \<open>Auxiliary facts\<close>

lemma upt14: "[0..<14] = [0,1,2,3,4,5,6,7,8,9,10,11,12,13]"
  by code_simp

lemma finish_fork_split:
  "thread_finish_fork te h
     = fold exec (drop 23 (thread_finish_fork_code te)) (fold exec (take 23 (thread_finish_fork_code te)) h)"
proof -
  have "thread_finish_fork_code te
          = take 23 (thread_finish_fork_code te) @ drop 23 (thread_finish_fork_code te)"
    by simp
  then have "fold exec (thread_finish_fork_code te) h
          = fold exec (take 23 (thread_finish_fork_code te) @ drop 23 (thread_finish_fork_code te)) h"
    by simp
  then show ?thesis
    unfolding thread_finish_fork_def fold_append by simp
qed

text \<open>The loads and the \<open>li\<close> after \<open>mv tp, a0\<close>, run from any state.\<close>

lemma finish_fork_loads:
  "fold exec (drop 23 (thread_finish_fork_code te)) h1 =
     h1\<lparr>xreg := (\<lambda>r. if r = 10 then 0
                      else if r \<in> {1,2,3,5,6,7,8,9,11,12,13,14,15,16,17,18,19,20,21,22,23,24,25,
                                     26,27,28,29,30,31}
                           then dmem h1 (xreg h1 11 + of_nat r * 8)
                      else xreg h1 r)\<rparr>"
  by (simp add: thread_finish_fork_code_def get_reg_def set_reg_def fun_eq_iff)

text \<open>The part up to and including \<open>mv tp, a0\<close>.\<close>

lemma finish_fork_pre:
  "fold exec (take 23 (thread_finish_fork_code te)) h =
     h\<lparr>xreg := (xreg h)(5 := dmem h (xreg h 10 + 15 * 8), 31 := dmem h (xreg h 11 + 32 * 8),
                          4 := xreg h 10),
       stvec := te,
       sscratch := dmem h (xreg h 10 + 15 * 8),
       sepc := dmem h (xreg h 11 + 33 * 8),
       sstatus := dmem h (xreg h 11 + 32 * 8),
       dmem := (dmem h)(xreg h 4 + 0 * 8 := xreg h 8, xreg h 4 + 1 * 8 := xreg h 9,
                        xreg h 4 + 2 * 8 := xreg h 18, xreg h 4 + 3 * 8 := xreg h 19,
                        xreg h 4 + 4 * 8 := xreg h 20, xreg h 4 + 5 * 8 := xreg h 21,
                        xreg h 4 + 6 * 8 := xreg h 22, xreg h 4 + 7 * 8 := xreg h 23,
                        xreg h 4 + 8 * 8 := xreg h 24, xreg h 4 + 9 * 8 := xreg h 25,
                        xreg h 4 + 10 * 8 := xreg h 26, xreg h 4 + 11 * 8 := xreg h 27,
                        xreg h 4 + 12 * 8 := xreg h 1, xreg h 4 + 13 * 8 := xreg h 2)\<rparr>"
  by (simp add: thread_finish_fork_code_def get_reg_def set_reg_def)

lemma finish_fork_csr:
  "stvec (thread_finish_fork te h) = te"
  "sscratch (thread_finish_fork te h) = dmem h (xreg h 10 + 15 * 8)"
  "sepc (thread_finish_fork te h) = dmem h (xreg h 11 + 33 * 8)"
  "sstatus (thread_finish_fork te h) = dmem h (xreg h 11 + 32 * 8)"
  by (simp_all add: finish_fork_split finish_fork_loads finish_fork_pre)

lemma finish_fork_a0_tp:
  "xreg (thread_finish_fork te h) 10 = 0"
  "xreg (thread_finish_fork te h) 4 = xreg h 10"
  by (simp_all add: finish_fork_split finish_fork_loads finish_fork_pre)

lemma finish_fork_dmem:
  "a \<notin> set (ctx_cells (xreg h 4)) \<Longrightarrow> dmem (thread_finish_fork te h) a = dmem h a"
  by (simp add: finish_fork_split finish_fork_loads finish_fork_pre ctx_cells_def upt14)

lemma finish_fork_loaded:
  assumes "1 \<le> i" "i \<le> 31" "i \<noteq> 4" "i \<noteq> 10"
  shows "xreg (thread_finish_fork te h) i = dmem (thread_finish_fork te h) (xreg h 11 + of_nat i * 8)"
proof -
  from assms have "i \<in> {1,2,3,5,6,7,8,9,11,12,13,14,15,16,17,18,19,20,21,22,23,24,25,
                          26,27,28,29,30,31}"
    by simp arith
  with assms show ?thesis
    by (simp add: finish_fork_split finish_fork_loads finish_fork_pre)
qed

lemma fork_hart_frame_apart:
  "xreg fork_hart 11 + of_nat i * 8 \<notin> set (ctx_cells (xreg fork_hart 4))" if "i \<le> 33" for i
proof -
  have u: "unat (0x80400000 + (of_nat i :: 64 word) * 8) = 0x80400000 + i * 8"
    using that by (simp add: unat_word_ariths unat_of_nat)
  have "0x80400000 + (of_nat i :: 64 word) * 8 \<noteq> c" if "unat c < 0x80400000" for c
    using u that by auto
  then show ?thesis
    by (simp add: fork_hart_def ctx_cells_def upt14)
qed

subsection \<open>The values fork returns\<close>

text \<open>
  C4 as stated fails for \<open>tp\<close>: the routine does not load \<open>x4\<close> from the parent's trap
  frame (the load is commented out) but sets it to the child's thread pointer. With
  \<open>fork_hart\<close>, the frame holds \<open>x[4] = 0x1234\<close>, untouched by the routine, and the
  child resumes with \<open>x4 = 0x80300000\<close>.
\<close>

theorem thread_finish_fork_tp_not_restored:
  "dmem (thread_finish_fork 0x80000100 fork_hart) (xreg fork_hart 11 + 4 * 8) = 0x1234
   \<and> xreg (thread_finish_fork 0x80000100 fork_hart) 4 = 0x80300000"
proof -
  have "xreg fork_hart 11 + of_nat 4 * 8 \<notin> set (ctx_cells (xreg fork_hart 4))"
    by (rule fork_hart_frame_apart) simp
  then have "dmem (thread_finish_fork 0x80000100 fork_hart) (xreg fork_hart 11 + of_nat 4 * 8)
             = dmem fork_hart (xreg fork_hart 11 + of_nat 4 * 8)"
    by (rule finish_fork_dmem)
  then show ?thesis
    by (simp add: finish_fork_a0_tp) (simp add: fork_hart_def)
qed

text \<open>
  C4, amended. When \<open>process_fork\<close> yields a child and \<open>thread_fork_to_user\<close> returns
  the thread id \<open>tid\<close>, \<open>sysfork\<close> returns \<open>tid\<close> in the parent. In the child,
  \<open>_thread_finish_fork\<close> ends with \<open>a0 = 0\<close>, with \<open>tp\<close> the child's thread pointer,
  with \<open>sepc\<close> and \<open>sstatus\<close> taken from the parent's trap frame, and with every
  register \<open>x1\<close> to \<open>x31\<close> other than \<open>a0\<close> and \<open>tp\<close> loaded from its slot of the
  frame; the routine writes memory only in the context of the thread that runs it, so a
  slot outside those 14 cells holds what the parent saved.
\<close>

theorem fork_return_values:
  "(process_fork child_ptr new_mtag k (proc_id (procs k (current_process k))) = Inr (Some child, k')
      \<longrightarrow> sysfork child_ptr new_mtag (Inr tid) k = (Inr tid, k'))
   \<and> xreg (thread_finish_fork te h) 10 = 0
   \<and> xreg (thread_finish_fork te h) 4 = xreg h 10
   \<and> sepc (thread_finish_fork te h) = dmem h (xreg h 11 + 33 * 8)
   \<and> sstatus (thread_finish_fork te h) = dmem h (xreg h 11 + 32 * 8)
   \<and> (\<forall>i. 1 \<le> i \<and> i \<le> 31 \<and> i \<noteq> 4 \<and> i \<noteq> 10
            \<and> xreg h 11 + of_nat i * 8 \<notin> set (ctx_cells (xreg h 4))
          \<longrightarrow> xreg (thread_finish_fork te h) i = dmem h (xreg h 11 + of_nat i * 8))"
proof -
  have "sysfork child_ptr new_mtag (Inr tid) k = (Inr tid, k')"
    if "process_fork child_ptr new_mtag k (proc_id (procs k (current_process k))) = Inr (Some child, k')"
    using that by (simp add: sysfork_def Let_def)
  moreover have "xreg (thread_finish_fork te h) i = dmem h (xreg h 11 + of_nat i * 8)"
    if "1 \<le> i" "i \<le> 31" "i \<noteq> 4" "i \<noteq> 10"
       "xreg h 11 + of_nat i * 8 \<notin> set (ctx_cells (xreg h 4))" for i
    using finish_fork_loaded [OF that(1-4)] finish_fork_dmem [OF that(5)] by simp
  ultimately show ?thesis
    by (simp add: finish_fork_a0_tp finish_fork_csr)
qed

theorem fork_return_values_witness:
  "(\<exists>k1. process_fork 200 0x8000000000080009 parent_state
            (proc_id (procs parent_state (current_process parent_state))) = Inr (Some 200, k1)
         \<and> sysfork 200 0x8000000000080009 (Inr 1) parent_state = (Inr 1, k1))
   \<and> (1::nat) \<le> 1 \<and> (1::nat) \<le> 31 \<and> (1::nat) \<noteq> 4 \<and> (1::nat) \<noteq> 10
   \<and> xreg fork_hart 11 + of_nat 1 * 8 \<notin> set (ctx_cells (xreg fork_hart 4))
   \<and> xreg (thread_finish_fork 0x80000100 fork_hart) 1 = 0x11
   \<and> xreg (thread_finish_fork 0x80000100 fork_hart) 10 = 0
   \<and> sepc (thread_finish_fork 0x80000100 fork_hart) = 0xC0000040"
proof -
  from parent_fork obtain k1 where
    k1: "process_fork 200 0x8000000000080009 parent_state 0 = Inr (Some 200, k1)"
    by blast
  have p: "proc_id (procs parent_state (current_process parent_state)) = 0"
    by (simp add: parent_state_def current_process_def)
  note t = fork_return_values [where child_ptr = 200 and new_mtag = "0x8000000000080009"
      and k = parent_state and child = 200 and k' = k1 and tid = 1
      and te = "0x80000100" and h = fork_hart]
  have a: "xreg fork_hart 11 + of_nat 1 * 8 \<notin> set (ctx_cells (xreg fork_hart 4))"
    by (rule fork_hart_frame_apart) simp
  from t k1 p have s: "sysfork 200 0x8000000000080009 (Inr 1) parent_state = (Inr 1, k1)"
    by simp
  from t a have "xreg (thread_finish_fork 0x80000100 fork_hart) 1
                 = dmem fork_hart (xreg fork_hart 11 + of_nat 1 * 8)"
    by simp
  then have x: "xreg (thread_finish_fork 0x80000100 fork_hart) 1 = 0x11"
    by (simp add: fork_hart_def)
  from t have z: "xreg (thread_finish_fork 0x80000100 fork_hart) 10 = 0" by simp
  from t have "sepc (thread_finish_fork 0x80000100 fork_hart)
               = dmem fork_hart (xreg fork_hart 11 + 33 * 8)"
    by simp
  then have e: "sepc (thread_finish_fork 0x80000100 fork_hart) = 0xC0000040"
    by (simp add: fork_hart_def)
  from k1 p s a x z e show ?thesis by auto
qed

section \<open>Properties of the block device\<close>

lemmas blk_defs = blk_dev_def ok_block0_def operation_single_blk_def VIRTIO_BLK_T_IN_def
  VIRTIO_BLK_T_OUT_def VIRTIO_BLK_S_OK_def Let_def word_gt_0

lemma blk_read_refused:
  "vioblk_read ok_block0 blk_dev buf 100 = Some (Inl (Errno ENOTSUP), buf, blk_dev\<lparr>bufblkno := 2\<rparr>)"
  by (simp add: vioblk_read_def blk_defs)

lemma blk_read_aligned:
  "\<exists>b d. vioblk_read (\<lambda>_ _. 0) blk_dev buf 1024 = Some (Inr 1024, b, d)
      \<and> req_log d = [(VIRTIO_BLK_T_IN, 2), (VIRTIO_BLK_T_IN, 3)]"
  apply (simp add: vioblk_read_def blk_defs)
  apply (subst vioblk_read_loop.simps)
  apply (simp add: blk_defs)
  apply (subst vioblk_read_loop.simps)
  apply (simp add: blk_defs)
  apply (subst vioblk_read_loop.simps)
  apply (simp add: blk_defs)
  done

lemma blk_write_unaligned:
  "\<exists>d. vioblk_write ok_block0 blk_dev buf 100 = Some (Inl (Errno EIO), d)
      \<and> req_log d = [(VIRTIO_BLK_T_OUT, 0), (VIRTIO_BLK_T_OUT, 1)]
      \<and> map (medium d 0) [0..<512] = map buf [0..<512]"
  apply (simp add: vioblk_write_def blk_defs)
  apply (subst vioblk_write_loop.simps)
  apply (simp add: blk_defs)
  apply (subst vioblk_write_loop.simps)
  apply (simp add: blk_defs memcpy_def)
  done

lemma blk_write_aligned:
  "\<exists>d. vioblk_write (\<lambda>_ _. 0) blk_dev buf 512 = Some (Inr 512, d)
      \<and> req_log d = [(VIRTIO_BLK_T_OUT, 0)]"
  apply (simp add: vioblk_write_def blk_defs)
  apply (subst vioblk_write_loop.simps)
  apply (simp add: blk_defs)
  apply (subst vioblk_write_loop.simps)
  apply (simp add: blk_defs memcpy_def)
  done

text \<open>
  C6 (the code departs from it on the write path). On \<open>blk_dev\<close>, with 512-byte blocks
  and the position in block 2, a read of 100 bytes is refused with the unsupported
  error and no request is made. A write of 100 bytes is not refused: the first request
  writes 512 bytes of the caller's memory to block 0, the remaining length wraps around
  and the loop goes on until the device reports an error, which the call returns as an
  I/O error. A write of 512 bytes goes to block 0, not to block 2: the write path counts
  sectors from 0 in each call, while the read path starts from the position.
\<close>

theorem vioblk_write_not_refused:
  "vioblk_read ok_block0 blk_dev buf 100 = Some (Inl (Errno ENOTSUP), buf, blk_dev\<lparr>bufblkno := 2\<rparr>)
   \<and> (\<exists>d. vioblk_write ok_block0 blk_dev buf 100 = Some (Inl (Errno EIO), d)
          \<and> req_log d = [(VIRTIO_BLK_T_OUT, 0), (VIRTIO_BLK_T_OUT, 1)]
          \<and> map (medium d 0) [0..<512] = map buf [0..<512])
   \<and> pos blk_dev div ucast (blksz blk_dev) = 2
   \<and> (\<exists>d. vioblk_write (\<lambda>_ _. 0) blk_dev buf 512 = Some (Inr 512, d)
          \<and> req_log d = [(VIRTIO_BLK_T_OUT, 0)])
   \<and> (\<exists>b d. vioblk_read (\<lambda>_ _. 0) blk_dev buf 1024 = Some (Inr 1024, b, d)
          \<and> req_log d = [(VIRTIO_BLK_T_IN, 2), (VIRTIO_BLK_T_IN, 3)])"
proof -
  have "pos blk_dev div ucast (blksz blk_dev) = 2"
    by (simp add: blk_dev_def)
  with blk_read_refused blk_write_unaligned blk_write_aligned blk_read_aligned
  show ?thesis by blast
qed

section \<open>Properties of the file system\<close>

subsection \<open>Auxiliary facts\<close>

lemma unat_ucast_32_64: "unat (ucast (x :: 32 word) :: 64 word) = unat x"
proof -
  have "unat x < 2 ^ 32" using unsigned_less [of x] by simp
  then have "unat x < 2 ^ 64" by simp
  then show ?thesis by (simp add: unsigned_ucast_eq take_bit_nat_eq_self)
qed

lemma lit_setpos_Inr:
  "lit_setpos lit p = (Inr r, lit') \<Longrightarrow>
     lit' = lit\<lparr>lit_pos := ucast p\<rparr> \<and> ucast p \<le> lit_size lit"
  by (auto simp: lit_setpos_def split: if_splits)

lemma iolit_read_full:
  assumes "iolit_read lit buf (ucast FS_BLKSZ) = (Inr (uint FS_BLKSZ), buf', lit')"
  shows "lit_buf lit' = lit_buf lit" "lit_size lit' = lit_size lit"
    and "\<And>j. j < 4096 \<Longrightarrow> buf' j = lit_buf lit (unat (lit_pos lit) + j)"
proof -
  let ?btr = "if (ucast FS_BLKSZ :: 64 word) < lit_size lit - lit_pos lit
              then ucast FS_BLKSZ else lit_size lit - lit_pos lit"
  from assms have u: "uint ?btr = uint FS_BLKSZ"
    and b: "buf' = memcpy buf 0 (lit_buf lit) (unat (lit_pos lit)) (unat ?btr)"
    and l: "lit' = lit\<lparr>lit_pos := lit_pos lit + ?btr\<rparr>"
    by (auto simp: iolit_read_def Let_def FS_BLKSZ_def split: if_splits)
  from u have "unat ?btr = 4096"
    by (simp add: FS_BLKSZ_def unat_eq_nat_uint)
  with b show "\<And>j. j < 4096 \<Longrightarrow> buf' j = lit_buf lit (unat (lit_pos lit) + j)"
    by (simp add: memcpy_def)
  from l show "lit_buf lit' = lit_buf lit" "lit_size lit' = lit_size lit" by simp_all
qed

lemma update_inode_Inr:
  assumes "update_inode fs ino = (Inr r, fs1)"
  shows "boot_block fs1 = boot_block fs" "file_list fs1 = file_list fs"
        "data_block fs1 = data_block fs"
        "lit_buf (disk_io fs1) = lit_buf (disk_io fs)" "lit_size (disk_io fs1) = lit_size (disk_io fs)"
    and "\<And>j. j < 4096 \<Longrightarrow> inode fs1 j = lit_buf (disk_io fs) (unat (inode_offset ino) + j)"
proof -
  from assms obtain r0 lit b lit' where
        sp: "lit_setpos (disk_io fs) (inode_offset ino) = (Inr r0, lit)"
    and rd: "iolit_read lit (inode fs) (ucast FS_BLKSZ) = (Inr (uint FS_BLKSZ), b, lit')"
    and fs1: "fs1 = fs\<lparr>inode := b, disk_io := lit'\<rparr>"
    by (auto simp: update_inode_def split: prod.splits sum.splits if_splits)
  from lit_setpos_Inr [OF sp] have lit: "lit = (disk_io fs)\<lparr>lit_pos := ucast (inode_offset ino)\<rparr>"
    by simp
  from fs1 show "boot_block fs1 = boot_block fs" "file_list fs1 = file_list fs"
        "data_block fs1 = data_block fs" by simp_all
  from iolit_read_full(1,2) [OF rd] fs1 lit
  show "lit_buf (disk_io fs1) = lit_buf (disk_io fs)" "lit_size (disk_io fs1) = lit_size (disk_io fs)"
    by simp_all
  fix j :: nat assume "j < 4096"
  from iolit_read_full(3) [OF rd this] fs1 lit
  show "inode fs1 j = lit_buf (disk_io fs) (unat (inode_offset ino) + j)"
    by (simp add: unat_ucast_32_64)
qed




lemma fs_read_loop_done:
  "\<not> rb < btr \<Longrightarrow> fs_read_loop fs fd ab btr buf rb = (Inr (int rb), buf, fs)"
  by (subst fs_read_loop.simps) simp

lemma fs_read_loop_step:
  "rb < btr \<Longrightarrow>
   fs_read_loop fs fd ab btr buf rb =
     (let bo = file_pos (file_list fs fd) + of_nat rb
      in if bo div FS_BLKSZ \<ge> ab \<or> bo div FS_BLKSZ \<ge> MAX_DB_PER_INODE
         then (Inl (Errno EIO), buf, fs)
         else if data_block_num (inode fs) (unat (bo div FS_BLKSZ)) \<ge> num_data (boot_block fs)
         then (Inl (Errno EIO), buf, fs)
         else (case update_data_block fs (data_block_num (inode fs) (unat (bo div FS_BLKSZ))) of
                 (Inl e, fs1) \<Rightarrow> (Inl (Errno EIO), buf, fs1)
               | (Inr r, fs1) \<Rightarrow>
                   (let c = (if unat (FS_BLKSZ - bo mod FS_BLKSZ) < btr - rb
                             then FS_BLKSZ - bo mod FS_BLKSZ else of_nat (btr - rb))
                    in fs_read_loop fs1 fd ab btr
                         (memcpy buf rb (data_block fs1) (unat (bo mod FS_BLKSZ)) (unat c))
                         (rb + unat c))))"
  by (subst fs_read_loop.simps) (auto simp: Let_def split: prod.splits sum.splits)













lemmas kfs_defs = hello_fs_def stray_fs_def hello_disk_def FS_BLKSZ_def MAX_DB_PER_INODE_def
  inode_offset_def data_block_offset_def num_inodes_def num_data_def byte_len_def
  data_block_num_def le32_def lit_setpos_def iolit_read_def memcpy_def

lemma hello_update_inode:
  "\<exists>fs1. update_inode hello_fs 0 = (Inr 0, fs1)"
  by (simp add: update_inode_def kfs_defs)



lemma hello_read:
  "fst (fs_read hello_fs (Some 0) (Some buf) 20) = Inr 13"
proof -
  obtain fs1 where ui: "update_inode hello_fs 0 = (Inr 0, fs1)"
    using hello_update_inode by blast
  note u = update_inode_Inr [OF ui]
  have bl: "byte_len (inode fs1) = 13"
    by (simp add: u(6) kfs_defs)
  have dn: "data_block_num (inode fs1) 0 = 0"
    by (simp add: u(6) kfs_defs)
  have nd: "num_data (boot_block fs1) = 1"
    by (simp add: u(1) kfs_defs)
  have fl: "file_list fs1 0 = \<lparr>file_pos = 0, file_size = 13, inode_number = 0, flags = 1\<rparr>"
    by (simp add: u(2) kfs_defs)
  have "\<exists>fs2. update_data_block fs1 0 = (Inr 0, fs2)"
    by (simp add: update_data_block_def u(1) u(5) kfs_defs)
  then obtain fs2 where ud: "update_data_block fs1 0 = (Inr 0, fs2)" by blast
  have lp: "fs_read_loop fs1 0 1 13 buf 0
            = fs_read_loop fs2 0 1 13 (memcpy buf 0 (data_block fs2) 0 13) 13"
    by (subst fs_read_loop_step) (simp_all add: fl dn nd ud FS_BLKSZ_def MAX_DB_PER_INODE_def)
  have "fs_read hello_fs (Some 0) (Some buf) 20
        = (Inr 13, Some (memcpy buf 0 (data_block fs2) 0 13),
           fs2\<lparr>file_list := (file_list fs2)(0 := (file_list fs2 0)\<lparr>file_pos := file_pos (file_list fs2 0) + 13\<rparr>)\<rparr>)"
  proof -
    have f0: "file_list hello_fs 0 = \<lparr>file_pos = 0, file_size = 13, inode_number = 0, flags = 1\<rparr>"
      by (simp add: kfs_defs)
    have ni: "num_inodes (boot_block hello_fs) = 1"
      by (simp add: kfs_defs)
    show ?thesis
      by (simp add: fs_read_def f0 ni ui bl fl lp fs_read_loop_done FS_BLKSZ_def)
  qed
  then show ?thesis by simp
qed















subsection \<open>Reading a file\<close>




end
